theory Spec2Isabelle
  imports Complex_Main
begin

section \<open>JSON values and the JavaScript operators the server applies to them\<close>

text \<open>
  The values the server holds in memory are those \<open>JSON.parse\<close> makes (of a request
  body, a token's payload, a file). \<open>JNum\<close> carries the exact value of a finite double
  (the server does no arithmetic on numbers: it only tests them for zero and compares
  them). \<open>JInf\<close> is the number \<open>Infinity\<close>, or \<open>-Infinity\<close> when its argument is true:
  \<open>JSON.parse\<close> makes it of a literal too large for a double, such as \<open>1e400\<close>. An object
  is the list of its own properties in the order JavaScript enumerates them, read by name
  with \<open>map_of\<close>. JavaScript's \<open>undefined\<close>, the value of a property that is not
  there, is \<open>None\<close> of \<open>json option\<close>.
\<close>

datatype json =
    JNull
  | JBool bool
  | JNum rat
  | JInf bool
  | JStr string
  | JArr "json list"
  | JObj "(string \<times> json) list"

type_synonym jsval = "json option"

type_synonym obj = "(string \<times> json) list"

text \<open>
  \<open>!v\<close> is \<open>\<not> truthy v\<close>: undefined, null, false, 0 and the empty string are falsy;
  an infinite number is truthy.
\<close>

fun truthy :: "jsval \<Rightarrow> bool" where
  "truthy None = False"
| "truthy (Some JNull) = False"
| "truthy (Some (JBool b)) = b"
| "truthy (Some (JNum n)) = (n \<noteq> 0)"
| "truthy (Some (JInf s)) = True"
| "truthy (Some (JStr s)) = (s \<noteq> [])"
| "truthy (Some (JArr xs)) = True"
| "truthy (Some (JObj kvs)) = True"

text \<open>
  \<open>a === b\<close> between two values that come from different parses (a request body, a token,
  a file): primitives are compared by value, while an array or an object is only ever
  identical to itself, so two parsed arrays or objects are never \<open>===\<close>.
\<close>

fun strict_eq :: "jsval \<Rightarrow> jsval \<Rightarrow> bool" where
  "strict_eq None None = True"
| "strict_eq (Some JNull) (Some JNull) = True"
| "strict_eq (Some (JBool a)) (Some (JBool b)) = (a = b)"
| "strict_eq (Some (JNum a)) (Some (JNum b)) = (a = b)"
| "strict_eq (Some (JInf a)) (Some (JInf b)) = (a = b)"
| "strict_eq (Some (JStr a)) (Some (JStr b)) = (a = b)"
| "strict_eq a b = False"

text \<open>
  \<open>v == s\<close> for a string \<open>s\<close> (a route parameter). Undefined and null are loosely equal
  to no string and a string is compared as such; for a number, a boolean, an array or an
  object the comparison goes through ECMAScript's string-to-number and to-primitive
  conversions, which are the parameter \<open>conv\<close> (\<open>conv v s\<close> holds when \<open>v == s\<close>).
\<close>

fun loose_eq :: "(json \<Rightarrow> string \<Rightarrow> bool) \<Rightarrow> jsval \<Rightarrow> string \<Rightarrow> bool" where
  "loose_eq conv None s = False"
| "loose_eq conv (Some JNull) s = False"
| "loose_eq conv (Some (JStr a)) s = (a = s)"
| "loose_eq conv (Some v) s = conv v s"

datatype error = TypeError | SyntaxError | Rejected

text \<open>
  \<open>v.k\<close> for the property names the server reads (\<open>id\<close>, \<open>email\<close>, \<open>password\<close>), none
  of which is inherited from a prototype: reading a property of null throws, a primitive
  or an array has no such property.
\<close>

fun property :: "json \<Rightarrow> string \<Rightarrow> error + jsval" where
  "property JNull k = Inl TypeError"
| "property (JObj kvs) k = Inr (map_of kvs k)"
| "property v k = Inr None"

section \<open>The record store\<close>

text \<open>
  A file holds text. The server only looks at a file's text through \<open>if (data)\<close> and
  \<open>JSON.parse\<close>, so a text is one of: the empty string, a text that \<open>JSON.parse\<close> reads
  as the value \<open>v\<close>, or a non-empty text that \<open>JSON.parse\<close> rejects.
\<close>

datatype file_data = Blank | Doc json | Corrupt

type_synonym files = "string \<Rightarrow> file_data option"

fun JSON_parse :: "file_data \<Rightarrow> error + json" where
  "JSON_parse Blank = Inl SyntaxError"
| "JSON_parse (Doc v) = Inr v"
| "JSON_parse Corrupt = Inl SyntaxError"

text \<open>
  \<open>JSON.stringify\<close> writes an infinite number as \<open>null\<close>, wherever it stands in the
  value, and every other value as a text that \<open>JSON.parse\<close> reads back as it was.
  \<open>written v\<close> is the value that \<open>JSON.parse\<close> reads in the text that \<open>JSON.stringify\<close>
  makes of \<open>v\<close>; that text is never empty.
\<close>

fun written :: "json \<Rightarrow> json" where
  "written (JInf s) = JNull"
| "written (JArr xs) = JArr (map written xs)"
| "written (JObj kvs) = JObj (map (map_prod id written) kvs)"
| "written v = v"

definition JSON_stringify :: "json \<Rightarrow> file_data" where
  "JSON_stringify v = Doc (written v)"

definition readData :: "files \<Rightarrow> string \<Rightarrow> files \<times> (error + json)" where
  "readData fs file =
     (case fs file of
        None \<Rightarrow> (fs(file \<mapsto> JSON_stringify (JArr [])), Inr (JArr []))
      | Some data \<Rightarrow> (fs, if data \<noteq> Blank then JSON_parse data else Inr (JArr [])))"

definition writeData :: "files \<Rightarrow> string \<Rightarrow> json \<Rightarrow> files" where
  "writeData fs file data = fs(file \<mapsto> JSON_stringify data)"

section \<open>Responses and the validation middleware\<close>

record response =
  status :: nat
  body :: json

text \<open>
  \<open>res.status(code).json(v)\<close>: the body that travels is the text \<open>JSON.stringify\<close> makes
  of \<open>v\<close>, so the body of a response is the value read in that text.
\<close>

definition json_response :: "nat \<Rightarrow> json \<Rightarrow> response" where
  "json_response code v = \<lparr>status = code, body = written v\<rparr>"

text \<open>One line \<open>if (!field) errors.field = message\<close> of a validator.\<close>

definition require :: "obj \<Rightarrow> string \<Rightarrow> string \<Rightarrow> obj" where
  "require b k msg = (if \<not> truthy (map_of b k) then [(k, JStr msg)] else [])"

text \<open>
  A validator answers \<open>Some\<close> response when it stops the request, and \<open>None\<close> when it
  calls \<open>next()\<close>. The request body is the JSON object that \<open>express.json()\<close> parsed.
\<close>

definition registration_errors :: "obj \<Rightarrow> obj" where
  "registration_errors b =
     require b ''name'' ''Name is required'' @
     require b ''email'' ''Email is required'' @
     require b ''password'' ''Password is required'' @
     require b ''phone'' ''Phone number is required'' @
     require b ''age'' ''Age is required'' @
     require b ''address'' ''Address is required''"

definition validateRegistration :: "obj \<Rightarrow> response option" where
  "validateRegistration b =
     (let errors = registration_errors b in
      if length errors > 0 then Some (json_response 400 (JObj [(''errors'', JObj errors)]))
      else None)"

definition task_errors :: "obj \<Rightarrow> obj" where
  "task_errors b =
     require b ''title'' ''Title is required'' @
     require b ''content'' ''Content is required'' @
     require b ''category'' ''Category is required'' @
     require b ''priority'' ''Priority is required'' @
     require b ''tags'' ''Tags are required'' @
     require b ''status'' ''Status is required'' @
     require b ''date'' ''Date is required''"

definition validateTask :: "obj \<Rightarrow> response option" where
  "validateTask b =
     (let errors = task_errors b in
      if length errors > 0 then Some (json_response 400 (JObj [(''errors'', JObj errors)]))
      else None)"

section \<open>Array methods over callbacks that may throw\<close>

definition bindE :: "error + 'a \<Rightarrow> ('a \<Rightarrow> error + 'b) \<Rightarrow> error + 'b" where
  "bindE m f = (case m of Inl e \<Rightarrow> Inl e | Inr x \<Rightarrow> f x)"

text \<open>
  The receiver of \<open>.find\<close>, \<open>.findIndex\<close>, \<open>.filter\<close> and \<open>.push\<close>: what \<open>readData\<close>
  returned. Only an array has these methods; on anything else the call throws.
\<close>

fun as_array :: "json \<Rightarrow> error + json list" where
  "as_array (JArr xs) = Inr xs"
| "as_array v = Inl TypeError"

text \<open>\<open>xs.find(p)\<close>: the first element on which \<open>p\<close> holds, or undefined.\<close>

fun js_find :: "(json \<Rightarrow> error + bool) \<Rightarrow> json list \<Rightarrow> error + jsval" where
  "js_find p [] = Inr None"
| "js_find p (x # xs) =
     (case p x of Inl e \<Rightarrow> Inl e | Inr b \<Rightarrow> if b then Inr (Some x) else js_find p xs)"

text \<open>\<open>xs.findIndex(p)\<close>: the index of that element; \<open>None\<close> stands for \<open>-1\<close>.\<close>

fun findIndex :: "(json \<Rightarrow> error + bool) \<Rightarrow> json list \<Rightarrow> error + nat option" where
  "findIndex p [] = Inr None"
| "findIndex p (x # xs) =
     (case p x of
        Inl e \<Rightarrow> Inl e
      | Inr b \<Rightarrow> if b then Inr (Some 0) else bindE (findIndex p xs) (\<lambda>r. Inr (map_option Suc r)))"

fun js_filter :: "(json \<Rightarrow> error + bool) \<Rightarrow> json list \<Rightarrow> error + json list" where
  "js_filter p [] = Inr []"
| "js_filter p (x # xs) =
     (case p x of
        Inl e \<Rightarrow> Inl e
      | Inr b \<Rightarrow> bindE (js_filter p xs) (\<lambda>r. Inr (if b then x # r else r)))"

section \<open>Object literals and spread\<close>

text \<open>
  An object literal whose values may be undefined. The server only ever serialises these
  objects (into a file, a response or a token), and \<open>JSON.stringify\<close> leaves out a
  property whose value is undefined.
\<close>

fun obj_lit :: "(string \<times> jsval) list \<Rightarrow> obj" where
  "obj_lit [] = []"
| "obj_lit ((k, None) # r) = obj_lit r"
| "obj_lit ((k, Some v) # r) = (k, v) # obj_lit r"

text \<open>\<open>a || d\<close> for a default \<open>d\<close>.\<close>

definition or_else :: "jsval \<Rightarrow> json \<Rightarrow> jsval" where
  "or_else a d = (if truthy a then a else Some d)"

fun show_nat :: "nat \<Rightarrow> string" where
  "show_nat n =
     (if n < 10 then [char_of (48 + n)] else show_nat (n div 10) @ [char_of (48 + n mod 10)])"

text \<open>
  The own enumerable properties that \<open>{...v}\<close> copies: those of an object, the indices of
  an array or of a string, none of null, a number or a boolean.
\<close>

fun own_props :: "json \<Rightarrow> obj" where
  "own_props (JObj kvs) = kvs"
| "own_props (JArr xs) = zip (map show_nat [0..<length xs]) xs"
| "own_props (JStr s) = zip (map show_nat [0..<length s]) (map (\<lambda>c. JStr [c]) s)"
| "own_props v = []"

text \<open>
  The order in which JavaScript enumerates the properties of an object: first the keys that
  are array indices (the decimal numeral, without a leading zero, of an integer below
  \<open>2\<^sup>3\<^sup>2 - 1\<close>) by ascending value, then the other keys in the order of their creation.
\<close>

fun decimal :: "string \<Rightarrow> nat \<Rightarrow> nat option" where
  "decimal [] acc = Some acc"
| "decimal (c # cs) acc =
     (let d = (of_char c :: nat) in
      if 48 \<le> d \<and> d \<le> 57 then decimal cs (10 * acc + (d - 48)) else None)"

definition index_of :: "string \<Rightarrow> nat option" where
  "index_of k =
     (case k of
        [] \<Rightarrow> None
      | c # cs \<Rightarrow>
          if c = CHR ''0'' \<and> cs \<noteq> [] then None
          else (case decimal k 0 of
                  None \<Rightarrow> None
                | Some n \<Rightarrow> if n < 4294967295 then Some n else None))"

definition js_order :: "obj \<Rightarrow> obj" where
  "js_order kvs =
     sort_key (\<lambda>p. case index_of (fst p) of Some n \<Rightarrow> n | None \<Rightarrow> 0)
       (filter (\<lambda>p. index_of (fst p) \<noteq> None) kvs) @
     filter (\<lambda>p. index_of (fst p) = None) kvs"

text \<open>
  \<open>{...a, ...b}\<close> creates the properties of \<open>a\<close> in their order, each with the value
  \<open>b\<close> gives it when \<open>b\<close> has that key, then the properties that only \<open>b\<close> has; the new
  object enumerates them in JavaScript's order.
\<close>

definition spread :: "obj \<Rightarrow> obj \<Rightarrow> obj" where
  "spread a b =
     js_order
       (map (\<lambda>(k, v). (k, case map_of b k of Some w \<Rightarrow> w | None \<Rightarrow> v)) a @
        filter (\<lambda>(k, v). map_of a k = None) b)"

section \<open>The authentication middleware\<close>

text \<open>\<open>process.env.SECRET_KEY || "fallback_secret"\<close>.\<close>

definition SECRET_KEY :: "string option \<Rightarrow> string" where
  "SECRET_KEY env =
     (case env of
        None \<Rightarrow> ''fallback_secret''
      | Some s \<Rightarrow> if s \<noteq> [] then s else ''fallback_secret'')"

definition startsWith :: "string \<Rightarrow> string \<Rightarrow> bool" where
  "startsWith s p = (take (length p) s = p)"

text \<open>\<open>s.split(c)\<close> for a one-character separator.\<close>

fun js_split :: "char \<Rightarrow> string \<Rightarrow> string list" where
  "js_split c [] = [[]]"
| "js_split c (x # xs) =
     (if x = c then [] # js_split c xs
      else (case js_split c xs of [] \<Rightarrow> [[x]] | p # ps \<Rightarrow> (x # p) # ps))"

text \<open>\<open>xs[i]\<close>, undefined out of range.\<close>

definition item :: "'a list \<Rightarrow> nat \<Rightarrow> 'a option" where
  "item xs i = (if i < length xs then Some (xs ! i) else None)"

definition no_token :: response where
  "no_token = json_response 403 (JObj [(''message'', JStr ''No token provided'')])"

definition invalid_token :: response where
  "invalid_token = json_response 401 (JObj [(''message'', JStr ''Invalid token'')])"

text \<open>
  \<open>jwt_verify token key now\<close> is \<open>jwt.verify\<close> of the jsonwebtoken library read at clock
  \<open>now\<close>: \<open>None\<close> when it throws, otherwise the decoded payload, an object (a payload that
  is a bare string has no \<open>email\<close> property, like the empty object). \<open>authHeader\<close> is
  \<open>req.headers.authorization\<close>. The middleware answers \<open>Inl\<close> a response when it stops
  the request and \<open>Inr\<close> the value it stores in \<open>req.user\<close> when it calls \<open>next()\<close>.
\<close>

definition authenticate ::
  "(string \<Rightarrow> string \<Rightarrow> nat \<Rightarrow> obj option) \<Rightarrow> string \<Rightarrow> nat \<Rightarrow> string option \<Rightarrow> response + obj" where
  "authenticate jwt_verify key now authHeader =
     (case authHeader of
        None \<Rightarrow> Inl no_token
      | Some h \<Rightarrow>
          if h = [] \<or> \<not> startsWith h ''Bearer '' then Inl no_token
          else (case item (js_split CHR '' '' h) 1 of
                  None \<Rightarrow> Inl invalid_token
                | Some token \<Rightarrow>
                    (case jwt_verify token key now of
                       None \<Rightarrow> Inl invalid_token
                     | Some decoded \<Rightarrow> Inr decoded)))"

text \<open>
  A route \<open>app.METHOD(path, authenticate, ..., handler)\<close>: the rest of the chain runs only
  when the middleware called \<open>next()\<close>. A handler maps the files to the files it leaves
  and to its outcome: a response, or the exception that escaped it.
\<close>

type_synonym outcome = "files \<times> (error + response)"

definition with_auth ::
  "(string \<Rightarrow> string \<Rightarrow> nat \<Rightarrow> obj option) \<Rightarrow> string option \<Rightarrow> nat \<Rightarrow> string option \<Rightarrow>
   (obj \<Rightarrow> files \<Rightarrow> outcome) \<Rightarrow> files \<Rightarrow> outcome" where
  "with_auth jwt_verify env now authHeader handler fs =
     (case authenticate jwt_verify (SECRET_KEY env) now authHeader of
        Inl r \<Rightarrow> (fs, Inr r)
      | Inr user \<Rightarrow> handler user fs)"

definition with_validation ::
  "(obj \<Rightarrow> response option) \<Rightarrow> obj \<Rightarrow> (files \<Rightarrow> outcome) \<Rightarrow> files \<Rightarrow> outcome" where
  "with_validation validate b handler fs =
     (case validate b of Some r \<Rightarrow> (fs, Inr r) | None \<Rightarrow> handler fs)"

section \<open>Registration and login\<close>

text \<open>The callback \<open>(user) => user.email === email\<close>.\<close>

definition has_email :: "jsval \<Rightarrow> json \<Rightarrow> error + bool" where
  "has_email email u = bindE (property u ''email'') (\<lambda>e. Inr (strict_eq e email))"

text \<open>
  \<open>bcrypt_hash password rounds salt\<close> is \<open>bcrypt.hash\<close> with the salt it draws: \<open>Inl\<close>
  the message of the error it rejects with, \<open>Inr\<close> the digest. \<open>jwt_sign payload key
  expiresIn now\<close> is \<open>jwt.sign\<close> read at clock \<open>now\<close>. The handler of \<open>POST /register\<close>,
  which runs after \<open>validateRegistration\<close>:
\<close>

definition register ::
  "(jsval \<Rightarrow> nat \<Rightarrow> string \<Rightarrow> string + string) \<Rightarrow> (obj \<Rightarrow> string \<Rightarrow> string \<Rightarrow> nat \<Rightarrow> string) \<Rightarrow>
   string option \<Rightarrow> string \<Rightarrow> nat \<Rightarrow> obj \<Rightarrow> files \<Rightarrow> outcome" where
  "register bcrypt_hash jwt_sign env salt now b fs =
     (let email = map_of b ''email''; password = map_of b ''password'' in
      case readData fs ''users.json'' of
        (fs1, Inl e) \<Rightarrow> (fs1, Inl e)
      | (fs1, Inr data) \<Rightarrow>
          (case bindE (as_array data) (\<lambda>users.
                  bindE (js_find (has_email email) users) (\<lambda>found. Inr (users, found))) of
             Inl e \<Rightarrow> (fs1, Inl e)
           | Inr (users, found) \<Rightarrow>
               if truthy found then
                 (fs1, Inr (json_response 400 (JObj [(''message'', JStr ''User already exists'')])))
               else
                 (case bcrypt_hash password 10 salt of
                    Inl msg \<Rightarrow>
                      (fs1, Inr (json_response 500
                         (JObj [(''message'', JStr ''Error hashing password''), (''error'', JStr msg)])))
                  | Inr hashedPassword \<Rightarrow>
                      (let newUser = obj_lit
                             [(''name'', map_of b ''name''), (''email'', email),
                              (''password'', Some (JStr hashedPassword)),
                              (''phone'', map_of b ''phone''), (''age'', map_of b ''age''),
                              (''address'', map_of b ''address'')];
                           fs2 = writeData fs1 ''users.json'' (JArr (users @ [JObj newUser]));
                           token = jwt_sign (obj_lit [(''email'', email)]) (SECRET_KEY env) ''12h'' now
                       in (fs2, Inr (json_response 201 (JObj [(''token'', JStr token)])))))))"

definition POST_register ::
  "(jsval \<Rightarrow> nat \<Rightarrow> string \<Rightarrow> string + string) \<Rightarrow> (obj \<Rightarrow> string \<Rightarrow> string \<Rightarrow> nat \<Rightarrow> string) \<Rightarrow>
   string option \<Rightarrow> string \<Rightarrow> nat \<Rightarrow> obj \<Rightarrow> files \<Rightarrow> outcome" where
  "POST_register bcrypt_hash jwt_sign env salt now b fs =
     with_validation validateRegistration b (register bcrypt_hash jwt_sign env salt now b) fs"

text \<open>
  \<open>bcrypt_compare password digest\<close> is \<open>bcrypt.compare\<close>: \<open>None\<close> when its promise
  rejects, which nothing in the handler catches.
\<close>

definition POST_login ::
  "(jsval \<Rightarrow> jsval \<Rightarrow> bool option) \<Rightarrow> (obj \<Rightarrow> string \<Rightarrow> string \<Rightarrow> nat \<Rightarrow> string) \<Rightarrow>
   string option \<Rightarrow> nat \<Rightarrow> obj \<Rightarrow> files \<Rightarrow> outcome" where
  "POST_login bcrypt_compare jwt_sign env now b fs =
     (let email = map_of b ''email''; password = map_of b ''password'';
          invalid = json_response 401 (JObj [(''message'', JStr ''Invalid credentials'')]) in
      if \<not> truthy email \<or> \<not> truthy password then
        (fs, Inr (json_response 400 (JObj [(''message'', JStr ''Email and password are required'')])))
      else
        (case readData fs ''users.json'' of
           (fs1, Inl e) \<Rightarrow> (fs1, Inl e)
         | (fs1, Inr data) \<Rightarrow>
             (case bindE (as_array data) (js_find (has_email email)) of
                Inl e \<Rightarrow> (fs1, Inl e)
              | Inr None \<Rightarrow> (fs1, Inr invalid)
              | Inr (Some user) \<Rightarrow>
                  if \<not> truthy (Some user) then (fs1, Inr invalid)
                  else
                    (case bindE (property user ''password'') (\<lambda>digest.
                            case bcrypt_compare password digest of
                              None \<Rightarrow> Inl Rejected
                            | Some ok \<Rightarrow> Inr ok) of
                       Inl e \<Rightarrow> (fs1, Inl e)
                     | Inr ok \<Rightarrow>
                         if \<not> ok then (fs1, Inr invalid)
                         else
                           (let token = jwt_sign (obj_lit [(''email'', email)]) (SECRET_KEY env) ''12h'' now
                            in (fs1, Inr (json_response 200 (JObj [(''token'', JStr token)]))))))))"

section \<open>Tasks\<close>

text \<open>
  The callback \<open>(task) => task.email === req.user.email\<close> of the listing is
  \<open>has_email\<close> at the caller's email. The callback \<open>(task) => task.email !== req.user.email\<close>
  of the bulk deletion, which the account deletion applies to both collections, is:
\<close>

definition not_email :: "jsval \<Rightarrow> json \<Rightarrow> error + bool" where
  "not_email email u = bindE (property u ''email'') (\<lambda>e. Inr (\<not> strict_eq e email))"

definition list_tasks :: "obj \<Rightarrow> files \<Rightarrow> outcome" where
  "list_tasks user fs =
     (case readData fs ''tasks.json'' of
        (fs1, Inl e) \<Rightarrow> (fs1, Inl e)
      | (fs1, Inr data) \<Rightarrow>
          (case bindE (as_array data) (js_filter (has_email (map_of user ''email''))) of
             Inl e \<Rightarrow> (fs1, Inl e)
           | Inr tasks \<Rightarrow> (fs1, Inr (json_response 200 (JArr tasks)))))"

definition GET_tasks ::
  "(string \<Rightarrow> string \<Rightarrow> nat \<Rightarrow> obj option) \<Rightarrow> string option \<Rightarrow> nat \<Rightarrow> string option \<Rightarrow> files \<Rightarrow> outcome" where
  "GET_tasks jwt_verify env now authHeader fs =
     with_auth jwt_verify env now authHeader list_tasks fs"

text \<open>
  The callbacks \<open>(t) => t.id == id && t.email === req.user.email\<close> of the read and the
  update, and \<open>(t) => t.id != id || t.email !== req.user.email\<close> of the deletion.
\<close>

definition is_task :: "(json \<Rightarrow> string \<Rightarrow> bool) \<Rightarrow> obj \<Rightarrow> string \<Rightarrow> json \<Rightarrow> error + bool" where
  "is_task conv user taskId t =
     bindE (property t ''id'') (\<lambda>i.
       if loose_eq conv i taskId
       then bindE (property t ''email'') (\<lambda>e. Inr (strict_eq e (map_of user ''email'')))
       else Inr False)"

definition not_task :: "(json \<Rightarrow> string \<Rightarrow> bool) \<Rightarrow> obj \<Rightarrow> string \<Rightarrow> json \<Rightarrow> error + bool" where
  "not_task conv user taskId t =
     bindE (property t ''id'') (\<lambda>i.
       if \<not> loose_eq conv i taskId then Inr True
       else bindE (property t ''email'') (\<lambda>e. Inr (\<not> strict_eq e (map_of user ''email''))))"

definition task_not_found :: response where
  "task_not_found = json_response 404 (JObj [(''message'', JStr ''Task not found'')])"

definition get_task :: "(json \<Rightarrow> string \<Rightarrow> bool) \<Rightarrow> string \<Rightarrow> obj \<Rightarrow> files \<Rightarrow> outcome" where
  "get_task conv taskId user fs =
     (case readData fs ''tasks.json'' of
        (fs1, Inl e) \<Rightarrow> (fs1, Inl e)
      | (fs1, Inr data) \<Rightarrow>
          (case bindE (as_array data) (js_find (is_task conv user taskId)) of
             Inl e \<Rightarrow> (fs1, Inl e)
           | Inr None \<Rightarrow> (fs1, Inr task_not_found)
           | Inr (Some task) \<Rightarrow>
               if \<not> truthy (Some task) then (fs1, Inr task_not_found)
               else (fs1, Inr (json_response 200 task))))"

definition GET_task ::
  "(string \<Rightarrow> string \<Rightarrow> nat \<Rightarrow> obj option) \<Rightarrow> (json \<Rightarrow> string \<Rightarrow> bool) \<Rightarrow> string option \<Rightarrow> nat \<Rightarrow>
   string option \<Rightarrow> string \<Rightarrow> files \<Rightarrow> outcome" where
  "GET_task jwt_verify conv env now authHeader taskId fs =
     with_auth jwt_verify env now authHeader (get_task conv taskId) fs"

text \<open>
  \<open>now\<close> is \<open>Date.now()\<close> and \<open>toISOString now\<close> is \<open>new Date().toISOString()\<close>. The
  handler of \<open>POST /tasks\<close>, which runs after \<open>authenticate\<close> and \<open>validateTask\<close>:
\<close>

definition create_task :: "(nat \<Rightarrow> string) \<Rightarrow> nat \<Rightarrow> obj \<Rightarrow> obj \<Rightarrow> files \<Rightarrow> outcome" where
  "create_task toISOString now b user fs =
     (case readData fs ''tasks.json'' of
        (fs1, Inl e) \<Rightarrow> (fs1, Inl e)
      | (fs1, Inr data) \<Rightarrow>
          (let newTask = obj_lit
                 [(''id'', Some (JNum (of_nat now))),
                  (''email'', map_of user ''email''),
                  (''title'', map_of b ''title''),
                  (''content'', map_of b ''content''),
                  (''category'', map_of b ''category''),
                  (''priority'', map_of b ''priority''),
                  (''tags'', map_of b ''tags''),
                  (''status'', or_else (map_of b ''status'') (JStr ''pending'')),
                  (''date'', or_else (map_of b ''date'') (JStr (toISOString now)))]
           in case as_array data of
                Inl e \<Rightarrow> (fs1, Inl e)
              | Inr tasks \<Rightarrow>
                  (writeData fs1 ''tasks.json'' (JArr (tasks @ [JObj newTask])),
                   Inr (json_response 200 (JObj newTask)))))"

definition POST_tasks ::
  "(string \<Rightarrow> string \<Rightarrow> nat \<Rightarrow> obj option) \<Rightarrow> (nat \<Rightarrow> string) \<Rightarrow> string option \<Rightarrow> nat \<Rightarrow>
   string option \<Rightarrow> obj \<Rightarrow> files \<Rightarrow> outcome" where
  "POST_tasks jwt_verify toISOString env now authHeader b fs =
     with_auth jwt_verify env now authHeader
       (\<lambda>user. with_validation validateTask b (create_task toISOString now b user)) fs"

definition update_task ::
  "(json \<Rightarrow> string \<Rightarrow> bool) \<Rightarrow> string \<Rightarrow> obj \<Rightarrow> obj \<Rightarrow> files \<Rightarrow> outcome" where
  "update_task conv taskId b user fs =
     (case readData fs ''tasks.json'' of
        (fs1, Inl e) \<Rightarrow> (fs1, Inl e)
      | (fs1, Inr data) \<Rightarrow>
          (case bindE (as_array data) (\<lambda>tasks.
                  bindE (findIndex (is_task conv user taskId) tasks) (\<lambda>taskIndex.
                    Inr (tasks, taskIndex))) of
             Inl e \<Rightarrow> (fs1, Inl e)
           | Inr (tasks, None) \<Rightarrow> (fs1, Inr task_not_found)
           | Inr (tasks, Some i) \<Rightarrow>
               (let merged = JObj (spread (own_props (tasks ! i)) b);
                    tasks' = tasks[i := merged]
                in (writeData fs1 ''tasks.json'' (JArr tasks'), Inr (json_response 200 merged)))))"

definition PUT_task ::
  "(string \<Rightarrow> string \<Rightarrow> nat \<Rightarrow> obj option) \<Rightarrow> (json \<Rightarrow> string \<Rightarrow> bool) \<Rightarrow> string option \<Rightarrow> nat \<Rightarrow>
   string option \<Rightarrow> string \<Rightarrow> obj \<Rightarrow> files \<Rightarrow> outcome" where
  "PUT_task jwt_verify conv env now authHeader taskId b fs =
     with_auth jwt_verify env now authHeader
       (\<lambda>user. with_validation validateTask b (update_task conv taskId b user)) fs"

definition delete_task :: "(json \<Rightarrow> string \<Rightarrow> bool) \<Rightarrow> string \<Rightarrow> obj \<Rightarrow> files \<Rightarrow> outcome" where
  "delete_task conv taskId user fs =
     (case readData fs ''tasks.json'' of
        (fs1, Inl e) \<Rightarrow> (fs1, Inl e)
      | (fs1, Inr data) \<Rightarrow>
          (case bindE (as_array data) (js_filter (not_task conv user taskId)) of
             Inl e \<Rightarrow> (fs1, Inl e)
           | Inr newTasks \<Rightarrow>
               (writeData fs1 ''tasks.json'' (JArr newTasks),
                Inr (json_response 200 (JObj [(''message'', JStr ''Task deleted'')])))))"

definition DELETE_task ::
  "(string \<Rightarrow> string \<Rightarrow> nat \<Rightarrow> obj option) \<Rightarrow> (json \<Rightarrow> string \<Rightarrow> bool) \<Rightarrow> string option \<Rightarrow> nat \<Rightarrow>
   string option \<Rightarrow> string \<Rightarrow> files \<Rightarrow> outcome" where
  "DELETE_task jwt_verify conv env now authHeader taskId fs =
     with_auth jwt_verify env now authHeader (delete_task conv taskId) fs"

definition delete_all_tasks :: "obj \<Rightarrow> files \<Rightarrow> outcome" where
  "delete_all_tasks user fs =
     (case readData fs ''tasks.json'' of
        (fs1, Inl e) \<Rightarrow> (fs1, Inl e)
      | (fs1, Inr data) \<Rightarrow>
          (case bindE (as_array data) (js_filter (not_email (map_of user ''email''))) of
             Inl e \<Rightarrow> (fs1, Inl e)
           | Inr tasks \<Rightarrow>
               (writeData fs1 ''tasks.json'' (JArr tasks),
                Inr (json_response 200 (JObj [(''message'', JStr ''All your tasks have been deleted.'')])))))"

definition DELETE_tasks ::
  "(string \<Rightarrow> string \<Rightarrow> nat \<Rightarrow> obj option) \<Rightarrow> string option \<Rightarrow> nat \<Rightarrow> string option \<Rightarrow> files \<Rightarrow> outcome" where
  "DELETE_tasks jwt_verify env now authHeader fs =
     with_auth jwt_verify env now authHeader delete_all_tasks fs"

section \<open>Account deletion\<close>

text \<open>The handler filters both collections with \<open>(u) => u.email !== req.user.email\<close>.\<close>

definition delete_account :: "obj \<Rightarrow> files \<Rightarrow> outcome" where
  "delete_account user fs =
     (if \<not> truthy (map_of user ''email'') then
        (fs, Inr (json_response 400 (JObj [(''message'', JStr ''Invalid user. Cannot delete account.'')])))
      else
        (case readData fs ''users.json'' of
           (fs1, Inl e) \<Rightarrow> (fs1, Inl e)
         | (fs1, Inr data) \<Rightarrow>
             (case bindE (as_array data) (js_filter (not_email (map_of user ''email''))) of
                Inl e \<Rightarrow> (fs1, Inl e)
              | Inr users \<Rightarrow>
                  (let fs2 = writeData fs1 ''users.json'' (JArr users) in
                   case readData fs2 ''tasks.json'' of
                     (fs3, Inl e) \<Rightarrow> (fs3, Inl e)
                   | (fs3, Inr data') \<Rightarrow>
                       (case bindE (as_array data') (js_filter (not_email (map_of user ''email''))) of
                          Inl e \<Rightarrow> (fs3, Inl e)
                        | Inr tasks \<Rightarrow>
                            (writeData fs3 ''tasks.json'' (JArr tasks),
                             Inr (json_response 200
                               (JObj [(''message'', JStr ''Account and all associated tasks deleted.'')]))))))))"

definition DELETE_account ::
  "(string \<Rightarrow> string \<Rightarrow> nat \<Rightarrow> obj option) \<Rightarrow> string option \<Rightarrow> nat \<Rightarrow> string option \<Rightarrow> files \<Rightarrow> outcome" where
  "DELETE_account jwt_verify env now authHeader fs =
     with_auth jwt_verify env now authHeader delete_account fs"

section \<open>Vocabulary of the properties\<close>

text \<open>
  The definitions of this section are not part of the server: they are the words in which
  its properties are stated. \<open>get_field\<close> reads a property without throwing,
  \<open>owned_by\<close> and \<open>id_matches\<close> are the two halves of the test the task routes apply
  to a stored task and \<open>mine\<close> is their conjunction. A value is \<open>storable\<close> when
  \<open>JSON.stringify\<close> writes it as it is, that is when no infinite number stands in it: so
  is every value of a file that the server has written. \<open>collection\<close> is the array that
  \<open>readData\<close> loads from a file, when it loads an array of storable values;
  \<open>opened\<close> is the file system after \<open>readData\<close> has looked at a file, and
  \<open>first_index\<close> is \<open>findIndex\<close> for a callback that cannot throw. The two tables
  list the fields each validator requires with their messages, \<open>task_fields\<close> names
  those of a task, \<open>without\<close> removes a field from a body, and \<open>new_user\<close> is the
  object a registration pushes on the users.
\<close>

definition registration_required :: "(string \<times> string) list" where
  "registration_required =
     [(''name'', ''Name is required''), (''email'', ''Email is required''),
      (''password'', ''Password is required''), (''phone'', ''Phone number is required''),
      (''age'', ''Age is required''), (''address'', ''Address is required'')]"

definition task_required :: "(string \<times> string) list" where
  "task_required =
     [(''title'', ''Title is required''), (''content'', ''Content is required''),
      (''category'', ''Category is required''), (''priority'', ''Priority is required''),
      (''tags'', ''Tags are required''), (''status'', ''Status is required''),
      (''date'', ''Date is required'')]"

definition without :: "string \<Rightarrow> obj \<Rightarrow> obj" where
  "without k b = filter (\<lambda>p. fst p \<noteq> k) b"

definition required_errors :: "(string \<times> string) list \<Rightarrow> obj \<Rightarrow> obj" where
  "required_errors tbl b = concat (map (\<lambda>(k, msg). require b k msg) tbl)"

definition get_field :: "json \<Rightarrow> string \<Rightarrow> jsval" where
  "get_field v k = (case v of JObj kvs \<Rightarrow> map_of kvs k | _ \<Rightarrow> None)"

definition owned_by :: "jsval \<Rightarrow> json \<Rightarrow> bool" where
  "owned_by email t = strict_eq (get_field t ''email'') email"

definition id_matches :: "(json \<Rightarrow> string \<Rightarrow> bool) \<Rightarrow> string \<Rightarrow> json \<Rightarrow> bool" where
  "id_matches conv taskId t = loose_eq conv (get_field t ''id'') taskId"

definition storable :: "json \<Rightarrow> bool" where
  "storable v \<longleftrightarrow> written v = v"

definition collection :: "files \<Rightarrow> string \<Rightarrow> json list option" where
  "collection fs file =
     (case snd (readData fs file) of
        Inr (JArr xs) \<Rightarrow> if list_all storable xs then Some xs else None
      | _ \<Rightarrow> None)"

fun first_index :: "('a \<Rightarrow> bool) \<Rightarrow> 'a list \<Rightarrow> nat option" where
  "first_index P [] = None"
| "first_index P (x # xs) = (if P x then Some 0 else map_option Suc (first_index P xs))"

definition opened :: "files \<Rightarrow> string \<Rightarrow> files" where
  "opened fs file = fst (readData fs file)"

definition mine :: "(json \<Rightarrow> string \<Rightarrow> bool) \<Rightarrow> obj \<Rightarrow> string \<Rightarrow> json \<Rightarrow> bool" where
  "mine conv user taskId t \<longleftrightarrow> id_matches conv taskId t \<and> owned_by (map_of user ''email'') t"

definition task_fields :: "string list" where
  "task_fields = [''title'', ''content'', ''category'', ''priority'', ''tags'', ''status'', ''date'']"

definition new_user :: "obj \<Rightarrow> string \<Rightarrow> obj" where
  "new_user b digest =
     obj_lit [(''name'', map_of b ''name''), (''email'', map_of b ''email''),
              (''password'', Some (JStr digest)),
              (''phone'', map_of b ''phone''), (''age'', map_of b ''age''),
              (''address'', map_of b ''address'')]"

section \<open>Sample values\<close>

text \<open>
  Concrete stand-ins on which the theorems are instantiated: a token verifier that knows
  the tokens of two users, the one loose equality the examples need (\<open>5 == "5"\<close>), a
  password hash that prepends its salt, a signer that issues those tokens, and sample
  bodies and records.
\<close>

definition sample_verify :: "string \<Rightarrow> string \<Rightarrow> nat \<Rightarrow> obj option" where
  "sample_verify token key now =
     (if token = ''tokA'' then Some [(''email'', JStr ''a@x.com'')]
      else if token = ''tokB'' then Some [(''email'', JStr ''b@x.com'')]
      else None)"

definition sample_conv :: "json \<Rightarrow> string \<Rightarrow> bool" where
  "sample_conv v s \<longleftrightarrow> v = JNum 5 \<and> s = ''5''"

definition sample_body :: "string \<Rightarrow> obj" where
  "sample_body title =
     [(''title'', JStr title), (''content'', JStr ''c''), (''category'', JStr ''cat''),
      (''priority'', JStr ''hi''), (''tags'', JStr ''x''), (''status'', JStr ''pending''),
      (''date'', JStr ''2024-01-01'')]"

definition sample_task :: "string \<Rightarrow> string \<Rightarrow> json" where
  "sample_task owner title =
     JObj ([(''id'', JNum 5), (''email'', JStr owner)] @ sample_body title)"

definition sample_overflow :: "json \<Rightarrow> obj" where
  "sample_overflow priority =
     [(''title'', JStr ''t''), (''content'', JStr ''c''), (''category'', JStr ''cat''),
      (''priority'', priority), (''tags'', JStr ''x''), (''status'', JStr ''pending''),
      (''date'', JStr ''2024-01-01'')]"

definition sample_hash :: "jsval \<Rightarrow> nat \<Rightarrow> string \<Rightarrow> string + string" where
  "sample_hash password rounds salt =
     (case password of Some (JStr p) \<Rightarrow> Inr (salt @ p) | _ \<Rightarrow> Inl ''Illegal arguments'')"

definition sample_compare :: "jsval \<Rightarrow> jsval \<Rightarrow> bool option" where
  "sample_compare password digest =
     (case password of
        Some (JStr p) \<Rightarrow> (case digest of Some (JStr d) \<Rightarrow> Some (drop 4 d = p) | _ \<Rightarrow> None)
      | _ \<Rightarrow> None)"

definition sample_sign :: "obj \<Rightarrow> string \<Rightarrow> string \<Rightarrow> nat \<Rightarrow> string" where
  "sample_sign payload key expiresIn now =
     (if map_of payload ''email'' = Some (JStr ''a@x.com'') then ''tokA''
      else if map_of payload ''email'' = Some (JStr ''b@x.com'') then ''tokB''
      else ''tokX'')"

definition sample_registration :: "json \<Rightarrow> obj" where
  "sample_registration email =
     [(''name'', JStr ''A''), (''email'', email), (''password'', JStr ''p1''),
      (''phone'', JStr ''1''), (''age'', JNum 30), (''address'', JStr ''addr'')]"

definition sample_user :: "json \<Rightarrow> json" where
  "sample_user email =
     JObj [(''name'', JStr ''A''), (''email'', email), (''password'', JStr ''saltp1''),
           (''phone'', JStr ''1''), (''age'', JNum 30), (''address'', JStr ''addr'')]"

section \<open>Lemmas on the validators\<close>

lemma map_of_without: "map_of (without k b) k' = (if k' = k then None else map_of b k')"
  by (induction b) (auto simp: without_def)

lemma require_without:
  "\<not> truthy (map_of b k) \<Longrightarrow> require (without k b) k' msg = require b k' msg"
  by (simp add: require_def map_of_without)

lemma registration_errors_without:
  "\<not> truthy (map_of b k) \<Longrightarrow> registration_errors (without k b) = registration_errors b"
  by (simp add: registration_errors_def require_without)

lemma task_errors_without:
  "\<not> truthy (map_of b k) \<Longrightarrow> task_errors (without k b) = task_errors b"
  by (simp add: task_errors_def require_without)

lemma registration_errors_table: "registration_errors b = required_errors registration_required b"
  by (simp add: registration_errors_def required_errors_def registration_required_def)

lemma task_errors_table: "task_errors b = required_errors task_required b"
  by (simp add: task_errors_def required_errors_def task_required_def)

lemma required_errors_message:
  "distinct (map fst tbl) \<Longrightarrow> (k, msg) \<in> set tbl \<Longrightarrow> \<not> truthy (map_of b k) \<Longrightarrow>
   map_of (required_errors tbl b) k = Some (JStr msg)"
proof (induction tbl)
  case Nil
  then show ?case by simp
next
  case (Cons p tbl)
  obtain k' m' where p: "p = (k', m')" by (cases p)
  show ?case
  proof (cases "k' = k")
    case True
    with Cons.prems p have "m' = msg" by (auto simp: image_iff)
    with True p Cons.prems(3) show ?thesis
      by (simp add: required_errors_def require_def)
  next
    case False
    with Cons p have "map_of (required_errors tbl b) k = Some (JStr msg)" by auto
    with False p show ?thesis
      by (simp add: required_errors_def require_def)
  qed
qed

lemma distinct_registration_required: "distinct (map fst registration_required)"
  by (simp add: registration_required_def)

lemma distinct_task_required: "distinct (map fst task_required)"
  by (simp add: task_required_def)

lemma required_errors_nonempty:
  "(k, msg) \<in> set tbl \<Longrightarrow> \<not> truthy (map_of b k) \<Longrightarrow> required_errors tbl b \<noteq> []"
  by (induction tbl) (auto simp: required_errors_def require_def)

lemma validateRegistration_rejects:
  assumes "\<not> truthy (map_of b k)" and "(k, msg) \<in> set registration_required"
  shows "validateRegistration b =
           Some (json_response 400 (JObj [(''errors'', JObj (registration_errors b))]))"
  using required_errors_nonempty [OF assms(2,1)]
  by (simp add: validateRegistration_def registration_errors_table Let_def)

lemma validateTask_rejects:
  assumes "\<not> truthy (map_of b k)" and "(k, msg) \<in> set task_required"
  shows "validateTask b = Some (json_response 400 (JObj [(''errors'', JObj (task_errors b))]))"
  using required_errors_nonempty [OF assms(2,1)]
  by (simp add: validateTask_def task_errors_table Let_def)

section \<open>Lemmas on the callbacks and the array methods\<close>

lemma property_get_field:
  "property v k = (if v = JNull then Inl TypeError else Inr (get_field v k))"
  by (cases v) (simp_all add: get_field_def)

lemma is_task_pure:
  "t \<noteq> JNull \<Longrightarrow>
   is_task conv user taskId t =
     Inr (id_matches conv taskId t \<and> owned_by (map_of user ''email'') t)"
  by (simp add: is_task_def property_get_field bindE_def id_matches_def owned_by_def)

lemma not_task_pure:
  "t \<noteq> JNull \<Longrightarrow>
   not_task conv user taskId t =
     Inr (\<not> (id_matches conv taskId t \<and> owned_by (map_of user ''email'') t))"
  by (simp add: not_task_def property_get_field bindE_def id_matches_def owned_by_def)

lemma has_email_pure: "u \<noteq> JNull \<Longrightarrow> has_email email u = Inr (owned_by email u)"
  by (simp add: has_email_def property_get_field bindE_def owned_by_def)

lemma not_email_pure: "u \<noteq> JNull \<Longrightarrow> not_email email u = Inr (\<not> owned_by email u)"
  by (simp add: not_email_def property_get_field bindE_def owned_by_def)

lemma js_filter_pure:
  "\<forall>x\<in>set xs. p x = Inr (P x) \<Longrightarrow> js_filter p xs = Inr (filter P xs)"
  by (induction xs) (simp_all add: bindE_def)

lemma js_find_pure:
  "\<forall>x\<in>set xs. p x = Inr (P x) \<Longrightarrow> js_find p xs = Inr (List.find P xs)"
  by (induction xs) simp_all

lemma findIndex_pure:
  "\<forall>x\<in>set xs. p x = Inr (P x) \<Longrightarrow> findIndex p xs = Inr (first_index P xs)"
  by (induction xs) (simp_all add: bindE_def)

lemma first_index_Some:
  "first_index P xs = Some i \<Longrightarrow> i < length xs \<and> P (xs ! i) \<and> (\<forall>j<i. \<not> P (xs ! j))"
proof (induction xs arbitrary: i)
  case Nil
  then show ?case by simp
next
  case (Cons x xs)
  show ?case
  proof (cases "P x")
    case True
    with Cons.prems show ?thesis by simp
  next
    case False
    with Cons.prems obtain i' where i': "first_index P xs = Some i'" "i = Suc i'"
      by auto
    from Cons.IH [OF i'(1)] False i'(2) show ?thesis
      by (auto simp: nth_Cons split: nat.splits)
  qed
qed

lemma find_None: "List.find P xs = None \<longleftrightarrow> (\<forall>x\<in>set xs. \<not> P x)"
  by (induction xs) auto

lemma find_Some_member: "List.find P xs = Some x \<Longrightarrow> x \<in> set xs \<and> P x"
  by (induction xs) (auto split: if_splits)

lemma strict_eq_imp_eq: "strict_eq a b \<Longrightarrow> a = b"
  by (induction a b rule: strict_eq.induct) simp_all

lemma strict_eq_self: "strict_eq e e \<Longrightarrow> strict_eq x e \<longleftrightarrow> x = e"
  using strict_eq_imp_eq by blast

section \<open>Lemmas on the files\<close>

lemma written_idem: "written (written v) = written v"
  by (induction v) (auto simp: map_idI)

lemma storable_written: "storable (written v)"
  by (simp add: storable_def written_idem)

lemma storable_prim:
  "storable JNull" "storable (JBool c)" "storable (JNum n)" "storable (JStr s)"
  by (simp_all add: storable_def)

lemma map_written_storable: "list_all storable xs \<Longrightarrow> map written xs = xs"
  by (induction xs) (simp_all add: storable_def)

lemma list_all_storable_written: "list_all storable (map written xs)"
  by (induction xs) (simp_all add: storable_written)

lemma storable_JArr: "storable (JArr xs) \<longleftrightarrow> list_all storable xs"
  by (induction xs) (auto simp: storable_def)

lemma map_of_written:
  "map_of (map (map_prod id written) kvs) k = map_option written (map_of kvs k)"
  by (induction kvs) auto

lemma get_field_written: "get_field (written (JObj kvs)) k = map_option written (map_of kvs k)"
  by (simp add: get_field_def map_of_written)

lemma get_field_storable: "storable v \<Longrightarrow> map_option written (get_field v k) = get_field v k"
proof (cases v)
  case (JObj kvs)
  assume "storable v"
  with JObj have w: "map (map_prod id written) kvs = kvs" by (simp add: storable_def)
  have "map_option written (map_of kvs k) = map_of (map (map_prod id written) kvs) k"
    by (simp add: map_of_written)
  also have "\<dots> = map_of kvs k" by (simp add: w)
  finally show ?thesis using JObj by (simp add: get_field_def)
qed (simp_all add: get_field_def)

lemma collection_cases:
  "collection fs file = Some xs \<longleftrightarrow>
     (fs file = Some (Doc (JArr xs)) \<and> list_all storable xs \<or>
      xs = [] \<and> (fs file = None \<or> fs file = Some Blank))"
proof (cases "fs file")
  case None
  then show ?thesis by (auto simp: collection_def readData_def)
next
  case (Some d)
  then show ?thesis
    by (cases d) (auto simp: collection_def readData_def split: json.splits)
qed

lemma collection_storable: "collection fs file = Some xs \<Longrightarrow> list_all storable xs"
  by (auto simp: collection_cases)

lemma readData_collection:
  "collection fs file = Some xs \<Longrightarrow>
   readData fs file = ((if fs file = None then fs(file \<mapsto> Doc (JArr [])) else fs), Inr (JArr xs))"
  by (auto simp: collection_cases readData_def JSON_stringify_def)

lemma collection_writeData_written:
  "collection (writeData fs file (JArr xs)) file = Some (map written xs)"
  by (simp add: collection_cases writeData_def JSON_stringify_def list_all_storable_written)

lemma collection_writeData [simp]:
  "list_all storable xs \<Longrightarrow> collection (writeData fs file (JArr xs)) file = Some xs"
  by (simp add: collection_writeData_written map_written_storable)

lemma collection_writeData_other:
  "file' \<noteq> file \<Longrightarrow> collection (writeData fs file v) file' = collection fs file'"
  by (cases "fs file'") (simp_all add: collection_def writeData_def readData_def)

lemma readData_opened:
  "collection fs file = Some xs \<Longrightarrow> readData fs file = (opened fs file, Inr (JArr xs))"
  by (simp add: opened_def readData_collection)

lemma collection_opened [simp]: "collection (opened fs file) file' = collection fs file'"
  by (cases "fs file"; cases "fs file'")
    (auto simp: opened_def collection_def readData_def JSON_stringify_def)

lemma writeData_opened [simp]: "writeData (opened fs file) file v = writeData fs file v"
  by (cases "fs file") (simp_all add: opened_def writeData_def readData_def)

lemma opened_existing: "fs file = Some d \<Longrightarrow> opened fs file = fs"
  by (simp add: opened_def readData_def)

section \<open>The task handlers on a well-formed collection\<close>

lemma id_matches_obj: "id_matches conv taskId t \<Longrightarrow> truthy (Some t)"
  by (cases t) (simp_all add: id_matches_def get_field_def)

lemma not_null: "JNull \<notin> set ts \<Longrightarrow> t \<in> set ts \<Longrightarrow> t \<noteq> JNull"
  by auto

lemma is_task_all:
  assumes "JNull \<notin> set ts"
  shows "\<forall>t\<in>set ts. is_task conv user taskId t = Inr (mine conv user taskId t)"
proof
  fix t assume "t \<in> set ts"
  with assms have "t \<noteq> JNull" by (rule not_null)
  then show "is_task conv user taskId t = Inr (mine conv user taskId t)"
    by (simp add: is_task_pure mine_def)
qed

lemma not_task_all:
  assumes "JNull \<notin> set ts"
  shows "\<forall>t\<in>set ts. not_task conv user taskId t = Inr (\<not> mine conv user taskId t)"
proof
  fix t assume "t \<in> set ts"
  with assms have "t \<noteq> JNull" by (rule not_null)
  then show "not_task conv user taskId t = Inr (\<not> mine conv user taskId t)"
    by (simp add: not_task_pure mine_def)
qed

lemma get_task_wf:
  assumes "collection fs ''tasks.json'' = Some ts" and "JNull \<notin> set ts"
  shows "get_task conv taskId user fs =
           (opened fs ''tasks.json'',
            Inr (case List.find (mine conv user taskId) ts of
                   None \<Rightarrow> task_not_found
                 | Some t \<Rightarrow> json_response 200 t))"
proof -
  have "\<forall>t\<in>set ts. is_task conv user taskId t = Inr (mine conv user taskId t)"
    by (rule is_task_all [OF assms(2)])
  then have f: "js_find (is_task conv user taskId) ts = Inr (List.find (mine conv user taskId) ts)"
    by (rule js_find_pure)
  show ?thesis
  proof (cases "List.find (mine conv user taskId) ts")
    case None
    with f show ?thesis
      by (simp add: get_task_def readData_opened [OF assms(1)] bindE_def)
  next
    case (Some t)
    then have "truthy (Some t)"
      using find_Some_member [of "mine conv user taskId" ts t] id_matches_obj
      by (auto simp: mine_def)
    with f Some show ?thesis
      by (simp add: get_task_def readData_opened [OF assms(1)] bindE_def)
  qed
qed

lemma delete_task_wf:
  assumes "collection fs ''tasks.json'' = Some ts" and "JNull \<notin> set ts"
  shows "delete_task conv taskId user fs =
           (writeData fs ''tasks.json'' (JArr (filter (\<lambda>t. \<not> mine conv user taskId t) ts)),
            Inr (json_response 200 (JObj [(''message'', JStr ''Task deleted'')])))"
proof -
  have "\<forall>t\<in>set ts. not_task conv user taskId t = Inr (\<not> mine conv user taskId t)"
    by (rule not_task_all [OF assms(2)])
  then have "js_filter (not_task conv user taskId) ts =
      Inr (filter (\<lambda>t. \<not> mine conv user taskId t) ts)"
    by (rule js_filter_pure)
  then show ?thesis
    by (simp add: delete_task_def readData_opened [OF assms(1)] bindE_def)
qed

lemma update_task_wf:
  assumes "collection fs ''tasks.json'' = Some ts" and "JNull \<notin> set ts"
  shows "update_task conv taskId b user fs =
           (case first_index (mine conv user taskId) ts of
              None \<Rightarrow> (opened fs ''tasks.json'', Inr task_not_found)
            | Some i \<Rightarrow>
                (writeData fs ''tasks.json'' (JArr (ts[i := JObj (spread (own_props (ts ! i)) b)])),
                 Inr (json_response 200 (JObj (spread (own_props (ts ! i)) b)))))"
proof -
  have "\<forall>t\<in>set ts. is_task conv user taskId t = Inr (mine conv user taskId t)"
    by (rule is_task_all [OF assms(2)])
  then have "findIndex (is_task conv user taskId) ts = Inr (first_index (mine conv user taskId) ts)"
    by (rule findIndex_pure)
  then show ?thesis
    by (simp add: update_task_def readData_opened [OF assms(1)] bindE_def Let_def
        split: option.splits)
qed

lemma create_task_wf:
  assumes "collection fs ''tasks.json'' = Some ts"
  shows "\<exists>newTask. create_task toISOString now b user fs =
           (writeData fs ''tasks.json'' (JArr (ts @ [JObj newTask])),
            Inr (json_response 200 (JObj newTask))) \<and>
         newTask = obj_lit
                 [(''id'', Some (JNum (of_nat now))),
                  (''email'', map_of user ''email''),
                  (''title'', map_of b ''title''),
                  (''content'', map_of b ''content''),
                  (''category'', map_of b ''category''),
                  (''priority'', map_of b ''priority''),
                  (''tags'', map_of b ''tags''),
                  (''status'', or_else (map_of b ''status'') (JStr ''pending'')),
                  (''date'', or_else (map_of b ''date'') (JStr (toISOString now)))]"
  by (simp add: create_task_def readData_opened [OF assms(1)] Let_def)

lemma writeData_same:
  "fs file = Some (Doc v) \<Longrightarrow> storable v \<Longrightarrow> writeData fs file v = fs"
  by (auto simp: writeData_def JSON_stringify_def storable_def)

lemma writeData_other: "file' \<noteq> file \<Longrightarrow> writeData fs file v file' = fs file'"
  by (simp add: writeData_def)



section \<open>Lemmas on object literals and spread\<close>

lemma sort_key_same: "\<forall>x\<in>set xs. f x = c \<Longrightarrow> sort_key f xs = xs"
proof (induction xs)
  case Nil
  then show ?case by simp
next
  case (Cons x xs)
  then have "sort_key f xs = xs" by simp
  with Cons.prems show ?case
    by (cases xs) (simp_all add: sort_key_simps)
qed

lemma map_of_filter_key: "map_of xs k = map_of (filter (\<lambda>p. fst p = k) xs) k"
  by (induction xs) auto

lemma filter_key_js_order:
  "filter (\<lambda>p. fst p = k) (js_order xs) = filter (\<lambda>p. fst p = k) xs"
proof -
  let ?f = "\<lambda>p::string \<times> json. case index_of (fst p) of Some n \<Rightarrow> n | None \<Rightarrow> 0"
  let ?Q = "\<lambda>p::string \<times> json. fst p = k"
  have s: "sort_key ?f (filter ?Q ys) = filter ?Q ys" for ys
    by (rule sort_key_same [where c = "case index_of k of Some n \<Rightarrow> n | None \<Rightarrow> 0"]) auto
  have "filter ?Q (js_order xs) =
      filter ?Q (filter (\<lambda>p. index_of (fst p) \<noteq> None) xs) @
      filter ?Q (filter (\<lambda>p. index_of (fst p) = None) xs)"
    by (simp only: js_order_def filter_append filter_sort s)
  also have "\<dots> = filter ?Q xs"
  proof (cases "index_of k")
    case None
    then have "filter ?Q (filter (\<lambda>p. index_of (fst p) \<noteq> None) xs) = []"
      by (auto simp: filter_empty_conv)
    moreover have "filter ?Q (filter (\<lambda>p. index_of (fst p) = None) xs) = filter ?Q xs"
      using None by (auto intro: filter_cong)
    ultimately show ?thesis by simp
  next
    case (Some n)
    then have "filter ?Q (filter (\<lambda>p. index_of (fst p) = None) xs) = []"
      by (auto simp: filter_empty_conv)
    moreover have "filter ?Q (filter (\<lambda>p. index_of (fst p) \<noteq> None) xs) = filter ?Q xs"
      using Some by (auto intro: filter_cong)
    ultimately show ?thesis by simp
  qed
  finally show ?thesis .
qed

lemma map_of_js_order: "map_of (js_order xs) k = map_of xs k"
  using map_of_filter_key [of "js_order xs" k] map_of_filter_key [of xs k]
  by (simp only: filter_key_js_order)

lemma map_of_spread: "map_of (spread a b) k = (map_of a ++ map_of b) k"
proof -
  have 1: "map_of (map (\<lambda>(k, v). (k, case map_of b k of Some w \<Rightarrow> w | None \<Rightarrow> v)) a) k =
      (case map_of a k of None \<Rightarrow> None
       | Some v \<Rightarrow> Some (case map_of b k of Some w \<Rightarrow> w | None \<Rightarrow> v))"
    by (induction a) (auto split: option.splits)
  have 2: "map_of (filter (\<lambda>(k, v). map_of a k = None) b) k =
      (if map_of a k = None then map_of b k else None)"
    by (induction b) auto
  show ?thesis
    by (simp add: spread_def map_of_js_order 1 2 map_add_def split: option.splits)
qed

lemma js_order_plain: "\<forall>p\<in>set kvs. index_of (fst p) = None \<Longrightarrow> js_order kvs = kvs"
  by (simp add: js_order_def filter_empty_conv filter_id_conv)

lemma index_of_word:
  "\<not> (48 \<le> (of_char c :: nat) \<and> (of_char c :: nat) \<le> 57) \<Longrightarrow> index_of (c # cs) = None"
  by (auto simp: index_of_def Let_def)

lemma collection_writeData_update:
  "list_all storable ts \<Longrightarrow>
   collection (writeData fs file (JArr (ts[i := v]))) file = Some (ts[i := written v])"
  by (simp only: collection_writeData_written map_update map_written_storable)

lemma storable_nth: "list_all storable ts \<Longrightarrow> i < length ts \<Longrightarrow> storable (ts ! i)"
  by (simp add: list_all_length)

lemma mine_is_object: "mine conv user taskId t \<Longrightarrow> \<exists>kvs. t = JObj kvs"
  by (cases t) (simp_all add: mine_def id_matches_def get_field_def)

lemma require_empty: "require b k msg = [] \<longleftrightarrow> truthy (map_of b k)"
  by (simp add: require_def)

lemma validateTask_None:
  "validateTask b = None \<longleftrightarrow>
     truthy (map_of b ''title'') \<and> truthy (map_of b ''content'') \<and> truthy (map_of b ''category'') \<and>
     truthy (map_of b ''priority'') \<and> truthy (map_of b ''tags'') \<and> truthy (map_of b ''status'') \<and>
     truthy (map_of b ''date'')"
  by (simp add: validateTask_def task_errors_def Let_def require_empty)

lemma validateRegistration_None:
  "validateRegistration b = None \<longleftrightarrow>
     truthy (map_of b ''name'') \<and> truthy (map_of b ''email'') \<and> truthy (map_of b ''password'') \<and>
     truthy (map_of b ''phone'') \<and> truthy (map_of b ''age'') \<and> truthy (map_of b ''address'')"
  by (simp add: validateRegistration_def registration_errors_def Let_def require_empty)

lemma map_of_obj_lit:
  "distinct (map fst kvs) \<Longrightarrow>
   map_of (obj_lit kvs) k = (case map_of kvs k of Some (Some v) \<Rightarrow> Some v | _ \<Rightarrow> None)"
proof (induction kvs rule: obj_lit.induct)
  case 1
  then show ?case by simp
next
  case (2 k' r)
  then have "k = k' \<Longrightarrow> map_of r k = None"
    by (auto simp: map_of_eq_None_iff)
  with 2 show ?case by auto
next
  case (3 k' v r)
  then show ?case by auto
qed

lemma or_else_truthy: "truthy a \<Longrightarrow> or_else a d = a"
  by (simp add: or_else_def)

lemma truthy_Some: "truthy a \<Longrightarrow> \<exists>v. a = Some v"
  by (cases a) simp_all

lemma find_append_fresh:
  "\<forall>x\<in>set xs. \<not> P x \<Longrightarrow> P y \<Longrightarrow> List.find P (xs @ [y]) = Some y"
  by (induction xs) auto

lemma get_field_obj_lit:
  "distinct (map fst kvs) \<Longrightarrow>
   get_field (JObj (obj_lit kvs)) k = (case map_of kvs k of Some (Some v) \<Rightarrow> Some v | _ \<Rightarrow> None)"
  by (simp add: get_field_def map_of_obj_lit)

section \<open>Lemmas on the Authorization header\<close>

lemma js_split_nonempty: "js_split c s \<noteq> []"
  by (induction s) (auto split: list.splits)

lemma js_split_hd: "hd (js_split c s) = takeWhile (\<lambda>x. x \<noteq> c) s"
  by (induction s) (auto split: list.splits simp: js_split_nonempty)

lemma js_split_prefix:
  "c \<notin> set p \<Longrightarrow> js_split c (p @ c # rest) = p # js_split c rest"
  by (induction p) (auto split: list.splits)

lemma token_of_header:
  "item (js_split CHR '' '' (''Bearer '' @ rest)) 1 = Some (takeWhile (\<lambda>x. x \<noteq> CHR '' '') rest)"
proof -
  have "js_split CHR '' '' (''Bearer'' @ CHR '' '' # rest) = ''Bearer'' # js_split CHR '' '' rest"
    by (rule js_split_prefix) simp
  moreover obtain t ts where "js_split CHR '' '' rest = t # ts"
    using js_split_nonempty [of "CHR '' ''" rest] by (cases "js_split CHR '' '' rest") auto
  ultimately show ?thesis
    using js_split_hd [of "CHR '' ''" rest] by (simp add: item_def)
qed

lemma startsWith_iff: "startsWith h p \<longleftrightarrow> (\<exists>rest. h = p @ rest)"
  unfolding startsWith_def
  by (metis append_eq_conv_conj append_take_drop_id)

section \<open>The user handlers on a well-formed collection\<close>

lemma has_email_all:
  assumes "JNull \<notin> set us"
  shows "\<forall>u\<in>set us. has_email email u = Inr (owned_by email u)"
proof
  fix u assume "u \<in> set us"
  with assms have "u \<noteq> JNull" by (rule not_null)
  then show "has_email email u = Inr (owned_by email u)" by (rule has_email_pure)
qed

lemma not_email_all:
  assumes "JNull \<notin> set us"
  shows "\<forall>u\<in>set us. not_email email u = Inr (\<not> owned_by email u)"
proof
  fix u assume "u \<in> set us"
  with assms have "u \<noteq> JNull" by (rule not_null)
  then show "not_email email u = Inr (\<not> owned_by email u)" by (rule not_email_pure)
qed

lemma owned_by_truthy: "truthy email \<Longrightarrow> owned_by email u \<Longrightarrow> truthy (Some u)"
  by (cases u; cases email) (simp_all add: owned_by_def get_field_def)

lemma register_wf:
  assumes coll: "collection fs ''users.json'' = Some us"
    and wf: "JNull \<notin> set us"
    and tr: "truthy (map_of b ''email'')"
  shows "register bcrypt_hash jwt_sign env salt now b fs =
     (case List.find (owned_by (map_of b ''email'')) us of
        Some u \<Rightarrow>
          (opened fs ''users.json'',
           Inr (json_response 400 (JObj [(''message'', JStr ''User already exists'')])))
      | None \<Rightarrow>
          (case bcrypt_hash (map_of b ''password'') 10 salt of
             Inl msg \<Rightarrow>
               (opened fs ''users.json'',
                Inr (json_response 500
                  (JObj [(''message'', JStr ''Error hashing password''), (''error'', JStr msg)])))
           | Inr digest \<Rightarrow>
               (writeData fs ''users.json'' (JArr (us @ [JObj (new_user b digest)])),
                Inr (json_response 201
                  (JObj [(''token'', JStr (jwt_sign (obj_lit [(''email'', map_of b ''email'')])
                     (SECRET_KEY env) ''12h'' now))])))))"
proof -
  have f: "js_find (has_email (map_of b ''email'')) us =
      Inr (List.find (owned_by (map_of b ''email'')) us)"
    by (rule js_find_pure [OF has_email_all [OF wf]])
  show ?thesis
  proof (cases "List.find (owned_by (map_of b ''email'')) us")
    case None
    with f show ?thesis
      by (simp add: register_def readData_opened [OF coll] bindE_def Let_def new_user_def
          split: sum.splits del: obj_lit.simps)
  next
    case (Some u)
    then have "truthy (Some u)"
      using find_Some_member [of "owned_by (map_of b ''email'')" us u] owned_by_truthy [OF tr]
      by simp
    with f Some show ?thesis
      by (simp add: register_def readData_opened [OF coll] bindE_def Let_def)
  qed
qed

lemma login_wf:
  assumes coll: "collection fs ''users.json'' = Some us"
    and wf: "JNull \<notin> set us"
    and tr: "truthy (map_of b ''email'')" "truthy (map_of b ''password'')"
  shows "POST_login bcrypt_compare jwt_sign env now b fs =
     (opened fs ''users.json'',
      case List.find (owned_by (map_of b ''email'')) us of
        None \<Rightarrow> Inr (json_response 401 (JObj [(''message'', JStr ''Invalid credentials'')]))
      | Some u \<Rightarrow>
          (case bcrypt_compare (map_of b ''password'') (get_field u ''password'') of
             None \<Rightarrow> Inl Rejected
           | Some ok \<Rightarrow>
               if ok then
                 Inr (json_response 200
                   (JObj [(''token'', JStr (jwt_sign (obj_lit [(''email'', map_of b ''email'')])
                      (SECRET_KEY env) ''12h'' now))]))
               else Inr (json_response 401 (JObj [(''message'', JStr ''Invalid credentials'')]))))"
proof -
  have f: "js_find (has_email (map_of b ''email'')) us =
      Inr (List.find (owned_by (map_of b ''email'')) us)"
    by (rule js_find_pure [OF has_email_all [OF wf]])
  show ?thesis
  proof (cases "List.find (owned_by (map_of b ''email'')) us")
    case None
    with f tr show ?thesis
      by (simp add: POST_login_def readData_opened [OF coll] bindE_def Let_def)
  next
    case (Some u)
    then have u: "u \<in> set us" "truthy (Some u)"
      using find_Some_member [of "owned_by (map_of b ''email'')" us u] owned_by_truthy [OF tr(1)]
      by simp_all
    then have "u \<noteq> JNull" using wf by auto
    with f Some tr u(2) show ?thesis
      by (simp add: POST_login_def readData_opened [OF coll] bindE_def Let_def
          property_get_field split: option.splits del: obj_lit.simps)
  qed
qed

lemma delete_account_wf:
  assumes cu: "collection fs ''users.json'' = Some us"
    and ct: "collection fs ''tasks.json'' = Some ts"
    and wu: "JNull \<notin> set us"
    and wt: "JNull \<notin> set ts"
    and tr: "truthy (map_of user ''email'')"
  shows "delete_account user fs =
     (writeData
        (writeData fs ''users.json''
           (JArr (filter (\<lambda>u. \<not> owned_by (map_of user ''email'') u) us)))
        ''tasks.json'' (JArr (filter (\<lambda>t. \<not> owned_by (map_of user ''email'') t) ts)),
      Inr (json_response 200 (JObj [(''message'', JStr ''Account and all associated tasks deleted.'')])))"
proof -
  let ?e = "map_of user ''email''"
  let ?fs2 = "writeData fs ''users.json'' (JArr (filter (\<lambda>u. \<not> owned_by ?e u) us))"
  have fu: "js_filter (not_email ?e) us = Inr (filter (\<lambda>u. \<not> owned_by ?e u) us)"
    by (rule js_filter_pure [OF not_email_all [OF wu]])
  have ft: "js_filter (not_email ?e) ts = Inr (filter (\<lambda>t. \<not> owned_by ?e t) ts)"
    by (rule js_filter_pure [OF not_email_all [OF wt]])
  have "collection ?fs2 ''tasks.json'' = Some ts"
    using ct by (simp add: collection_writeData_other)
  then have r2: "readData ?fs2 ''tasks.json'' = (opened ?fs2 ''tasks.json'', Inr (JArr ts))"
    by (rule readData_opened)
  show ?thesis
    using tr by (simp add: delete_account_def readData_opened [OF cu] bindE_def fu ft r2 Let_def)
qed

lemma collection_nonempty:
  "collection fs file = Some xs \<Longrightarrow> xs \<noteq> [] \<Longrightarrow> fs file = Some (Doc (JArr xs))"
  by (auto simp: collection_cases)

lemma find_append_None:
  "List.find P xs = None \<Longrightarrow> P y \<Longrightarrow> List.find P (xs @ [y]) = Some y"
  by (induction xs) (auto split: if_splits)

lemma register_created:
  assumes reg: "POST_register bcrypt_hash jwt_sign env salt t0 b fs = (fs1, Inr r)"
    and created: "status r = 201"
    and coll: "collection fs ''users.json'' = Some us"
    and wf: "JNull \<notin> set us"
  shows "\<exists>digest. bcrypt_hash (map_of b ''password'') 10 salt = Inr digest \<and>
           validateRegistration b = None \<and>
           List.find (owned_by (map_of b ''email'')) us = None \<and>
           fs1 = writeData fs ''users.json'' (JArr (us @ [JObj (new_user b digest)]))"
proof (cases "validateRegistration b")
  case (Some r')
  then have "r' = json_response 400 (JObj [(''errors'', JObj (registration_errors b))])"
    by (auto simp: validateRegistration_def Let_def split: if_splits)
  with Some reg created show ?thesis
    by (auto simp: POST_register_def with_validation_def json_response_def)
next
  case None
  then have tr: "truthy (map_of b ''email'')"
    by (simp add: validateRegistration_None)
  note w = register_wf [OF coll wf tr, of bcrypt_hash jwt_sign env salt t0]
  show ?thesis
  proof (cases "List.find (owned_by (map_of b ''email'')) us")
    case (Some u)
    with w reg created None show ?thesis
      by (auto simp: POST_register_def with_validation_def json_response_def)
  next
    case nf: None
    show ?thesis
    proof (cases "bcrypt_hash (map_of b ''password'') 10 salt")
      case (Inl msg)
      with w reg created None nf show ?thesis
        by (auto simp: POST_register_def with_validation_def json_response_def)
    next
      case (Inr digest)
      with w reg None nf show ?thesis
        by (simp add: POST_register_def with_validation_def)
    qed
  qed
qed

lemma new_user_fields:
  assumes "truthy (map_of b ''email'')"
  shows "get_field (JObj (new_user b digest)) ''email'' = map_of b ''email''"
    and "get_field (JObj (new_user b digest)) ''password'' = Some (JStr digest)"
  using truthy_Some [OF assms]
  by (auto simp: new_user_def get_field_obj_lit simp del: obj_lit.simps)

lemma login_found:
  assumes coll: "collection fs ''users.json'' = Some us"
    and wf: "JNull \<notin> set us"
    and found: "List.find (owned_by (map_of lb ''email'')) us = Some u"
    and tr: "truthy (map_of lb ''email'')" "truthy (map_of lb ''password'')"
  shows "POST_login bcrypt_compare jwt_sign env now lb fs =
     (fs,
      case bcrypt_compare (map_of lb ''password'') (get_field u ''password'') of
        None \<Rightarrow> Inl Rejected
      | Some ok \<Rightarrow>
          if ok then
            Inr (json_response 200
              (JObj [(''token'', JStr (jwt_sign (obj_lit [(''email'', map_of lb ''email'')])
                 (SECRET_KEY env) ''12h'' now))]))
          else Inr (json_response 401 (JObj [(''message'', JStr ''Invalid credentials'')])))"
proof -
  from find_Some_member [OF found] have "us \<noteq> []" by auto
  from collection_nonempty [OF coll this] have "opened fs ''users.json'' = fs"
    by (rule opened_existing)
  then show ?thesis
    using login_wf [OF coll wf tr, of bcrypt_compare jwt_sign env now] found
    by (simp del: obj_lit.simps)
qed

lemma found_email:
  "List.find (owned_by e) us = Some u \<Longrightarrow> get_field u ''email'' = e"
  using find_Some_member [of "owned_by e" us u] by (simp add: owned_by_def strict_eq_imp_eq)

lemma written_new_user:
  assumes "truthy (map_of b ''email'')"
  shows "get_field (written (JObj (new_user b digest))) ''email'' = map_option written (map_of b ''email'')"
    and "get_field (written (JObj (new_user b digest))) ''password'' = Some (JStr digest)"
  unfolding get_field_written
  using new_user_fields [OF assms, of digest]
  by (simp_all add: get_field_def)

lemma register_store:
  assumes reg: "POST_register bcrypt_hash jwt_sign env salt t0 b fs = (fs1, Inr r)"
    and created: "status r = 201"
    and coll: "collection fs ''users.json'' = Some us"
    and wf: "JNull \<notin> set us"
    and prim: "strict_eq (map_option written (map_of b ''email'')) (map_of b ''email'')"
  shows "\<exists>digest new.
           bcrypt_hash (map_of b ''password'') 10 salt = Inr digest \<and>
           new = written (JObj (new_user b digest)) \<and>
           collection fs1 ''users.json'' = Some (us @ [new]) \<and> JNull \<notin> set (us @ [new]) \<and>
           List.find (owned_by (map_of b ''email'')) (us @ [new]) = Some new \<and>
           get_field new ''email'' = map_of b ''email'' \<and>
           get_field new ''password'' = Some (JStr digest) \<and>
           truthy (map_of b ''email'') \<and> truthy (map_of b ''password'')"
proof -
  from register_created [OF reg created coll wf] obtain digest where
    h: "bcrypt_hash (map_of b ''password'') 10 salt = Inr digest" and
    v: "validateRegistration b = None" and
    nf: "List.find (owned_by (map_of b ''email'')) us = None" and
    fs1: "fs1 = writeData fs ''users.json'' (JArr (us @ [JObj (new_user b digest)]))"
    by blast
  let ?e = "map_of b ''email''"
  let ?new = "written (JObj (new_user b digest))"
  note st = collection_storable [OF coll]
  from v have tr: "truthy ?e" "truthy (map_of b ''password'')"
    by (simp_all add: validateRegistration_None)
  have coll1: "collection fs1 ''users.json'' = Some (us @ [?new])"
    unfolding fs1 collection_writeData_written
    by (simp add: map_written_storable [OF st] del: written.simps)
  have wf1: "JNull \<notin> set (us @ [?new])" using wf by simp
  have em: "get_field ?new ''email'' = map_option written ?e"
    by (rule written_new_user(1) [OF tr(1)])
  from prim have em': "map_option written ?e = ?e" by (rule strict_eq_imp_eq)
  have "owned_by ?e ?new"
    unfolding owned_by_def em using prim .
  with nf have found: "List.find (owned_by ?e) (us @ [?new]) = Some ?new"
    by (rule find_append_None)
  have pw: "get_field ?new ''password'' = Some (JStr digest)"
    by (rule written_new_user(2) [OF tr(1)])
  from h coll1 wf1 found em em' pw tr show ?thesis
    by (simp del: written.simps)
qed

section \<open>Lemmas on the sample values\<close>

lemma sample_auth:
  "authenticate sample_verify (SECRET_KEY None) n (Some ''Bearer tokA'') = Inr [(''email'', JStr ''a@x.com'')]"
  "authenticate sample_verify (SECRET_KEY None) n (Some ''Bearer tokB'') = Inr [(''email'', JStr ''b@x.com'')]"
  by (simp_all add: authenticate_def startsWith_def item_def sample_verify_def)


lemma sample_body_new: "validateTask (sample_body ''new'') = None"
  by (simp add: validateTask_def task_errors_def require_def sample_body_def)

lemma sample_task_storable: "storable (sample_task owner title)"
  by (simp add: storable_def sample_task_def sample_body_def)

lemma sample_user_storable: "storable (sample_user e) \<longleftrightarrow> storable e"
  by (simp add: storable_def sample_user_def)

lemma sample_collection:
  "list_all storable xs \<Longrightarrow> collection [file \<mapsto> Doc (JArr xs)] file = Some xs"
  by (simp add: collection_cases)

lemma sample_tasks:
  "collection [file \<mapsto> Doc (JArr [sample_task owner title])] file = Some [sample_task owner title]"
  by (simp add: sample_collection sample_task_storable)

lemma PUT_task_first:
  assumes auth: "authenticate jwt_verify (SECRET_KEY env) now authHeader = Inr user"
    and valid: "validateTask b = None"
    and coll: "collection fs ''tasks.json'' = Some ts"
    and wf: "JNull \<notin> set ts"
    and idx: "first_index (mine conv user taskId) ts = Some i"
    and rec: "ts ! i = JObj old"
  shows "PUT_task jwt_verify conv env now authHeader taskId b fs =
      (writeData fs ''tasks.json'' (JArr (ts[i := JObj (spread old b)])),
       Inr (json_response 200 (JObj (spread old b))))"
  using update_task_wf [OF coll wf, of conv taskId b user] idx rec
  by (simp add: PUT_task_def with_auth_def auth with_validation_def valid)

lemma sample_mine:
  "mine sample_conv [(''email'', JStr ''a@x.com'')] ''5'' (sample_task ''a@x.com'' title)"
  by (simp add: mine_def id_matches_def owned_by_def get_field_def sample_task_def sample_conv_def)

lemma sample_spread:
  "spread ((''id'', JNum 5) # (''email'', JStr ''a@x.com'') # sample_body ''t'') (sample_body ''new'') =
      (''id'', JNum 5) # (''email'', JStr ''a@x.com'') # sample_body ''new''"
  by (simp add: spread_def sample_body_def js_order_plain index_of_word)

lemma sample_spread_overflow:
  "spread ((''id'', JNum 5) # (''email'', JStr ''a@x.com'') # sample_body ''t'') (sample_overflow v) =
      (''id'', JNum 5) # (''email'', JStr ''a@x.com'') # sample_overflow v"
  by (simp add: spread_def sample_body_def sample_overflow_def js_order_plain index_of_word)

lemma sample_overflow_valid: "validateTask (sample_overflow (JInf True)) = None"
  by (simp add: validateTask_def task_errors_def require_def sample_overflow_def)


lemma sample_post:
  "list_all storable ts \<Longrightarrow>
   POST_tasks sample_verify (\<lambda>n. ''iso'') None 5 (Some ''Bearer tokA'') (sample_body ''new'')
      [''tasks.json'' \<mapsto> Doc (JArr ts)] =
     ([''tasks.json'' \<mapsto> Doc (JArr (ts @ [sample_task ''a@x.com'' ''new'']))],
      Inr (json_response 200 (sample_task ''a@x.com'' ''new'')))"
  by (simp add: POST_tasks_def with_auth_def sample_auth with_validation_def validateTask_def
      task_errors_def require_def sample_body_def create_task_def readData_def or_else_def
      writeData_def JSON_stringify_def sample_task_def Let_def map_written_storable)

lemma sample_register:
  "POST_register sample_hash sample_sign None ''salt'' 5 (sample_registration (JStr ''a@x.com'')) Map.empty =
     ([''users.json'' \<mapsto> Doc (JArr [sample_user (JStr ''a@x.com'')])],
      Inr (json_response 201 (JObj [(''token'', JStr ''tokA'')])))"
  by (simp add: POST_register_def with_validation_def validateRegistration_def
      registration_errors_def require_def sample_registration_def register_def readData_def
      bindE_def sample_user_def sample_hash_def sample_sign_def writeData_def
      JSON_stringify_def Let_def)

section \<open>Isolation of the tasks of other users\<close>




section \<open>Update is a shallow spread of the body\<close>

text \<open>
  Claim C2, as amended. Let the caller be authenticated, the body pass the task validator,
  and the stored task at index \<open>i\<close> be the first one that the caller owns and whose id
  matches the route. Then \<open>PUT /tasks/:id\<close> answers 200 and replaces that entry alone, a
  JSON object, by the spread of the body over it as \<open>JSON.stringify\<close> writes it, which is
  also the body of the answer: every property of the merged task has the value the body
  gives it, with each non-finite number in it written as \<open>null\<close>, when the body has that
  property, and its stored value otherwise. In particular an \<open>email\<close> or an \<open>id\<close> in the
  body overwrites the owner or the id of the task, by the caller's value itself when that
  value holds no non-finite number.
\<close>

theorem update_spreads_body_over_record:
  assumes auth: "authenticate jwt_verify (SECRET_KEY env) now authHeader = Inr user"
    and valid: "validateTask b = None"
    and coll: "collection fs ''tasks.json'' = Some ts"
    and wf: "JNull \<notin> set ts"
    and idx: "first_index
                (\<lambda>t. id_matches conv taskId t \<and> owned_by (map_of user ''email'') t) ts = Some i"
  shows "\<exists>old merged.
           ts ! i = JObj old \<and> merged = written (JObj (spread old b)) \<and>
           PUT_task jwt_verify conv env now authHeader taskId b fs =
             (writeData fs ''tasks.json'' (JArr (ts[i := JObj (spread old b)])),
              Inr \<lparr>status = 200, body = merged\<rparr>) \<and>
           collection (writeData fs ''tasks.json'' (JArr (ts[i := JObj (spread old b)]))) ''tasks.json'' =
             Some (ts[i := merged]) \<and>
           (\<forall>k. get_field merged k =
                  (case map_of b k of Some v \<Rightarrow> Some (written v) | None \<Rightarrow> map_of old k)) \<and>
           (\<forall>k v. map_of b k = Some v \<and> storable v \<longrightarrow> get_field merged k = Some v) \<and>
           (\<forall>v. map_of b ''email'' = Some v \<longrightarrow> get_field merged ''email'' = Some (written v)) \<and>
           (\<forall>v. map_of b ''id'' = Some v \<longrightarrow> get_field merged ''id'' = Some (written v))"
proof -
  note st = collection_storable [OF coll]
  have idx': "first_index (mine conv user taskId) ts = Some i"
    using idx by (simp add: mine_def [abs_def])
  from first_index_Some [OF idx'] have i: "i < length ts" and m: "mine conv user taskId (ts ! i)"
    by simp_all
  from m obtain old where rec: "ts ! i = JObj old"
    using mine_is_object by blast
  have p: "PUT_task jwt_verify conv env now authHeader taskId b fs =
      (writeData fs ''tasks.json'' (JArr (ts[i := JObj (spread old b)])),
       Inr \<lparr>status = 200, body = written (JObj (spread old b))\<rparr>)"
    using PUT_task_first [OF auth valid coll wf idx' rec] by (simp add: json_response_def)
  have c: "collection (writeData fs ''tasks.json'' (JArr (ts[i := JObj (spread old b)]))) ''tasks.json'' =
             Some (ts[i := written (JObj (spread old b))])"
    by (rule collection_writeData_update [OF st])
  have o: "map_option written (map_of old k) = map_of old k" for k
    using get_field_storable [OF storable_nth [OF st i], of k] rec by (simp add: get_field_def)
  have f: "get_field (written (JObj (spread old b))) k =
      (case map_of b k of Some v \<Rightarrow> Some (written v) | None \<Rightarrow> map_of old k)" for k
    unfolding get_field_written
    using o [of k] by (simp add: map_of_spread map_add_def split: option.splits)
  have g: "map_of b k = Some v \<and> storable v \<longrightarrow> get_field (written (JObj (spread old b))) k = Some v"
    for k v
    unfolding f by (simp add: storable_def)
  from rec p c f g show ?thesis by (auto simp del: written.simps simp: storable_def)
qed

text \<open>
  The claim as it was stated, for every owned task and with the values the caller
  supplied, does not hold. When the caller owns two tasks with the id of the route, the
  update replaces the first and leaves the second as it was. And a body whose priority is
  the literal \<open>1e400\<close>, which the body parser reads as \<open>Infinity\<close> and the validator accepts,
  is stored and answered with the priority \<open>null\<close>.
\<close>

theorem update_spreads_body_over_record_counterexample:
  "PUT_task sample_verify sample_conv None 9 (Some ''Bearer tokA'') ''5'' (sample_body ''new'')
      [''tasks.json'' \<mapsto> Doc (JArr [sample_task ''a@x.com'' ''t'', sample_task ''a@x.com'' ''u''])] =
     ([''tasks.json'' \<mapsto> Doc (JArr [sample_task ''a@x.com'' ''new'', sample_task ''a@x.com'' ''u''])],
      Inr \<lparr>status = 200, body = sample_task ''a@x.com'' ''new''\<rparr>) \<and>
   validateTask (sample_overflow (JInf True)) = None \<and>
   PUT_task sample_verify sample_conv None 9 (Some ''Bearer tokA'') ''5'' (sample_overflow (JInf True))
      [''tasks.json'' \<mapsto> Doc (JArr [sample_task ''a@x.com'' ''t''])] =
     ([''tasks.json'' \<mapsto> Doc (JArr [JObj ([(''id'', JNum 5), (''email'', JStr ''a@x.com'')] @ sample_overflow JNull)])],
      Inr \<lparr>status = 200, body = JObj ([(''id'', JNum 5), (''email'', JStr ''a@x.com'')] @ sample_overflow JNull)\<rparr>)"
proof -
  let ?two = "[sample_task ''a@x.com'' ''t'', sample_task ''a@x.com'' ''u'']"
  let ?one = "[sample_task ''a@x.com'' ''t'']"
  let ?old = "(''id'', JNum 5) # (''email'', JStr ''a@x.com'') # sample_body ''t''"
  have c2: "collection [''tasks.json'' \<mapsto> Doc (JArr ?two)] ''tasks.json'' = Some ?two"
    by (simp add: sample_collection sample_task_storable)
  have w2: "JNull \<notin> set ?two" and w1: "JNull \<notin> set ?one"
    by (simp_all add: sample_task_def)
  have i2: "first_index (mine sample_conv [(''email'', JStr ''a@x.com'')] ''5'') ?two = Some 0"
    and i1: "first_index (mine sample_conv [(''email'', JStr ''a@x.com'')] ''5'') ?one = Some 0"
    by (simp_all add: sample_mine)
  have r2: "?two ! 0 = JObj ?old" and r1: "?one ! 0 = JObj ?old"
    by (simp_all add: sample_task_def)
  have w: "written (sample_task ''a@x.com'' ''new'') = sample_task ''a@x.com'' ''new''"
    "written (sample_task ''a@x.com'' ''u'') = sample_task ''a@x.com'' ''u''"
    using sample_task_storable by (simp_all add: storable_def)
  have a: "PUT_task sample_verify sample_conv None 9 (Some ''Bearer tokA'') ''5'' (sample_body ''new'')
      [''tasks.json'' \<mapsto> Doc (JArr ?two)] =
     ([''tasks.json'' \<mapsto> Doc (JArr [sample_task ''a@x.com'' ''new'', sample_task ''a@x.com'' ''u''])],
      Inr \<lparr>status = 200, body = sample_task ''a@x.com'' ''new''\<rparr>)"
    unfolding PUT_task_first [OF sample_auth(1) [of 9] sample_body_new c2 w2 i2 r2] sample_spread
    using w by (simp add: writeData_def JSON_stringify_def json_response_def sample_task_def)
  have b: "PUT_task sample_verify sample_conv None 9 (Some ''Bearer tokA'') ''5'' (sample_overflow (JInf True))
      [''tasks.json'' \<mapsto> Doc (JArr ?one)] =
     ([''tasks.json'' \<mapsto> Doc (JArr [JObj ([(''id'', JNum 5), (''email'', JStr ''a@x.com'')] @ sample_overflow JNull)])],
      Inr \<lparr>status = 200, body = JObj ([(''id'', JNum 5), (''email'', JStr ''a@x.com'')] @ sample_overflow JNull)\<rparr>)"
    unfolding PUT_task_first [OF sample_auth(1) [of 9] sample_overflow_valid sample_tasks w1 i1 r1]
      sample_spread_overflow
    by (simp add: writeData_def JSON_stringify_def json_response_def sample_overflow_def)
  from a sample_overflow_valid b show ?thesis by simp
qed

text \<open>An instance: user A moves a task to user B and renumbers it.\<close>

theorem update_spreads_body_over_record_witness:
  "PUT_task sample_verify sample_conv None 9 (Some ''Bearer tokA'') ''5''
      ((''email'', JStr ''b@x.com'') # (''id'', JNum 9) # sample_body ''new'')
      [''tasks.json'' \<mapsto> Doc (JArr [sample_task ''a@x.com'' ''t''])] =
     ([''tasks.json'' \<mapsto> Doc (JArr [JObj ([(''id'', JNum 9), (''email'', JStr ''b@x.com'')] @ sample_body ''new'')])],
      Inr \<lparr>status = 200, body = JObj ([(''id'', JNum 9), (''email'', JStr ''b@x.com'')] @ sample_body ''new'')\<rparr>)"
proof -
  let ?b = "(''email'', JStr ''b@x.com'') # (''id'', JNum 9) # sample_body ''new''"
  let ?old = "(''id'', JNum 5) # (''email'', JStr ''a@x.com'') # sample_body ''t''"
  let ?new = "(''id'', JNum 9) # (''email'', JStr ''b@x.com'') # sample_body ''new''"
  have valid: "validateTask ?b = None"
    by (simp add: validateTask_def task_errors_def require_def sample_body_def)
  have wf: "JNull \<notin> set [sample_task ''a@x.com'' ''t'']"
    by (simp add: sample_task_def)
  have idx: "first_index (\<lambda>t. id_matches sample_conv ''5'' t \<and>
        owned_by (map_of [(''email'', JStr ''a@x.com'')] ''email'') t) [sample_task ''a@x.com'' ''t''] = Some 0"
    by (simp add: id_matches_def owned_by_def get_field_def sample_task_def sample_conv_def)
  have sp: "spread ?old ?b = ?new"
    by (simp add: spread_def sample_body_def js_order_plain index_of_word)
  have w: "written (JObj ?new) = JObj ?new"
    by (simp add: sample_body_def)
  from update_spreads_body_over_record [OF sample_auth(1) [of 9] valid sample_tasks wf idx]
  obtain old where o: "[sample_task ''a@x.com'' ''t''] ! 0 = JObj old"
    and p: "PUT_task sample_verify sample_conv None 9 (Some ''Bearer tokA'') ''5'' ?b
        [''tasks.json'' \<mapsto> Doc (JArr [sample_task ''a@x.com'' ''t''])] =
      (writeData [''tasks.json'' \<mapsto> Doc (JArr [sample_task ''a@x.com'' ''t''])] ''tasks.json''
         (JArr ([sample_task ''a@x.com'' ''t''][0 := JObj (spread old ?b)])),
       Inr \<lparr>status = 200, body = written (JObj (spread old ?b))\<rparr>)"
    by blast
  from o have old: "old = ?old" by (simp add: sample_task_def)
  show ?thesis
    unfolding p old sp w by (simp add: writeData_def JSON_stringify_def sample_body_def)
qed

section \<open>Login after registration\<close>

text \<open>
  Claim C3, as amended. Let the users file hold an array without null entries.

  For a login whose email is truthy, let \<open>u\<close> be the stored user that \<open>users.find\<close> selects:
  the first one whose email is strictly equal to the email of the login. The email of
  \<open>u\<close> is then that email, and
  \<^item> with a truthy password that \<open>bcrypt.compare\<close> accepts against the stored digest of
    \<open>u\<close>, the login answers 200 with the token that \<open>jwt.sign\<close> issues for the payload
    \<open>{email}\<close> under the process secret, so that whenever \<open>jwt.verify\<close> under that secret
    reads the token back as a claim with the payload's email, the claim's email is the
    stored email of \<open>u\<close>;
  \<^item> with a truthy password that \<open>bcrypt.compare\<close> finds not to match the stored digest of
    \<open>u\<close>, the login answers 401, with a message and no token;
  \<^item> with an empty, or otherwise falsy, password, the login answers 400, with a message and
    no token;
  and no file changes.

  The stored digest is the one of the registration: when \<open>POST /register\<close> answers 201 for
  a body whose email is a JSON primitive other than a non-finite number (it is written as
  it is, and \<open>===\<close> identifies it with itself), the users afterwards are the former ones
  followed by the new user, \<open>users.find\<close> selects the new user under the email of the
  registration, its stored email is that email and its stored password is the digest that
  \<open>bcrypt.hash\<close> made of the registration's password; so a login with the email and the
  password of the registration, on the files the registration left, answers 200 with the
  token of that email whenever \<open>bcrypt.compare\<close> accepts the password against that digest.
\<close>

theorem login_after_registration:
  assumes coll: "collection fs ''users.json'' = Some us"
    and wf: "JNull \<notin> set us"
  shows "(List.find (owned_by (map_of lb ''email'')) us = Some u \<and> truthy (map_of lb ''email'') \<longrightarrow>
           get_field u ''email'' = map_of lb ''email'' \<and>
           (truthy (map_of lb ''password'') \<and>
            bcrypt_compare (map_of lb ''password'') (get_field u ''password'') = Some True \<longrightarrow>
              (\<exists>token. POST_login bcrypt_compare jwt_sign env t1 lb fs =
                          (fs, Inr (json_response 200 (JObj [(''token'', JStr token)]))) \<and>
                       token = jwt_sign (obj_lit [(''email'', map_of lb ''email'')])
                                 (SECRET_KEY env) ''12h'' t1 \<and>
                       (jwt_verify token (SECRET_KEY env) t2 = Some claim \<and>
                        map_of claim ''email'' = map_of lb ''email'' \<longrightarrow>
                          map_of claim ''email'' = get_field u ''email''))) \<and>
           (truthy (map_of lb ''password'') \<and>
            bcrypt_compare (map_of lb ''password'') (get_field u ''password'') = Some False \<longrightarrow>
              POST_login bcrypt_compare jwt_sign env t1 lb fs =
                (fs, Inr (json_response 401 (JObj [(''message'', JStr ''Invalid credentials'')])))) \<and>
           (\<not> truthy (map_of lb ''password'') \<longrightarrow>
              POST_login bcrypt_compare jwt_sign env t1 lb fs =
                (fs, Inr (json_response 400 (JObj [(''message'', JStr ''Email and password are required'')]))))) \<and>
         (POST_register bcrypt_hash jwt_sign env salt t0 b fs = (fs1, Inr r) \<and> status r = 201 \<and>
          strict_eq (map_option written (map_of b ''email'')) (map_of b ''email'') \<longrightarrow>
            (\<exists>digest new.
               bcrypt_hash (map_of b ''password'') 10 salt = Inr digest \<and>
               collection fs1 ''users.json'' = Some (us @ [new]) \<and> JNull \<notin> set (us @ [new]) \<and>
               List.find (owned_by (map_of b ''email'')) (us @ [new]) = Some new \<and>
               get_field new ''email'' = map_of b ''email'' \<and>
               get_field new ''password'' = Some (JStr digest) \<and>
               (bcrypt_compare (map_of b ''password'') (Some (JStr digest)) = Some True \<and>
                map_of lb ''email'' = map_of b ''email'' \<and>
                map_of lb ''password'' = map_of b ''password'' \<longrightarrow>
                  POST_login bcrypt_compare jwt_sign env t1 lb fs1 =
                    (fs1, Inr (json_response 200
                       (JObj [(''token'', JStr (jwt_sign (obj_lit [(''email'', map_of b ''email'')])
                          (SECRET_KEY env) ''12h'' t1))]))))))"
proof (intro conjI impI)
  assume a: "List.find (owned_by (map_of lb ''email'')) us = Some u \<and> truthy (map_of lb ''email'')"
  then have "List.find (owned_by (map_of lb ''email'')) us = Some u" by simp
  then show "get_field u ''email'' = map_of lb ''email''"
    by (rule found_email)
next
  assume a: "List.find (owned_by (map_of lb ''email'')) us = Some u \<and> truthy (map_of lb ''email'')"
    and p: "truthy (map_of lb ''password'') \<and>
            bcrypt_compare (map_of lb ''password'') (get_field u ''password'') = Some True"
  from a have f: "List.find (owned_by (map_of lb ''email'')) us = Some u"
    and tr: "truthy (map_of lb ''email'')" by simp_all
  from p have trp: "truthy (map_of lb ''password'')" by simp
  have l: "POST_login bcrypt_compare jwt_sign env t1 lb fs =
      (fs, Inr (json_response 200 (JObj [(''token'',
         JStr (jwt_sign (obj_lit [(''email'', map_of lb ''email'')]) (SECRET_KEY env) ''12h'' t1))])))"
    unfolding login_found [OF coll wf f tr trp] using p by simp
  show "\<exists>token. POST_login bcrypt_compare jwt_sign env t1 lb fs =
                          (fs, Inr (json_response 200 (JObj [(''token'', JStr token)]))) \<and>
                       token = jwt_sign (obj_lit [(''email'', map_of lb ''email'')])
                                 (SECRET_KEY env) ''12h'' t1 \<and>
                       (jwt_verify token (SECRET_KEY env) t2 = Some claim \<and>
                        map_of claim ''email'' = map_of lb ''email'' \<longrightarrow>
                          map_of claim ''email'' = get_field u ''email'')"
    using l found_email [OF f] by (simp del: obj_lit.simps)
next
  assume a: "List.find (owned_by (map_of lb ''email'')) us = Some u \<and> truthy (map_of lb ''email'')"
    and p: "truthy (map_of lb ''password'') \<and>
            bcrypt_compare (map_of lb ''password'') (get_field u ''password'') = Some False"
  from a have f: "List.find (owned_by (map_of lb ''email'')) us = Some u"
    and tr: "truthy (map_of lb ''email'')" by simp_all
  from p have trp: "truthy (map_of lb ''password'')" by simp
  show "POST_login bcrypt_compare jwt_sign env t1 lb fs =
      (fs, Inr (json_response 401 (JObj [(''message'', JStr ''Invalid credentials'')])))"
    unfolding login_found [OF coll wf f tr trp] using p by simp
next
  assume "\<not> truthy (map_of lb ''password'')"
  then show "POST_login bcrypt_compare jwt_sign env t1 lb fs =
      (fs, Inr (json_response 400 (JObj [(''message'', JStr ''Email and password are required'')])))"
    by (simp add: POST_login_def)
next
  assume r: "POST_register bcrypt_hash jwt_sign env salt t0 b fs = (fs1, Inr r) \<and> status r = 201 \<and>
          strict_eq (map_option written (map_of b ''email'')) (map_of b ''email'')"
  from r have reg: "POST_register bcrypt_hash jwt_sign env salt t0 b fs = (fs1, Inr r)"
    and created: "status r = 201"
    and prim: "strict_eq (map_option written (map_of b ''email'')) (map_of b ''email'')"
    by simp_all
  from register_store [OF reg created coll wf prim] obtain digest new where
    h: "bcrypt_hash (map_of b ''password'') 10 salt = Inr digest" and
    c1: "collection fs1 ''users.json'' = Some (us @ [new])" and
    w1: "JNull \<notin> set (us @ [new])" and
    f1: "List.find (owned_by (map_of b ''email'')) (us @ [new]) = Some new" and
    em: "get_field new ''email'' = map_of b ''email''" and
    pw: "get_field new ''password'' = Some (JStr digest)" and
    tr: "truthy (map_of b ''email'')" "truthy (map_of b ''password'')"
    by blast
  have "bcrypt_compare (map_of b ''password'') (Some (JStr digest)) = Some True \<and>
      map_of lb ''email'' = map_of b ''email'' \<and> map_of lb ''password'' = map_of b ''password'' \<longrightarrow>
      POST_login bcrypt_compare jwt_sign env t1 lb fs1 =
        (fs1, Inr (json_response 200
           (JObj [(''token'', JStr (jwt_sign (obj_lit [(''email'', map_of b ''email'')])
              (SECRET_KEY env) ''12h'' t1))])))"
  proof
    assume q: "bcrypt_compare (map_of b ''password'') (Some (JStr digest)) = Some True \<and>
      map_of lb ''email'' = map_of b ''email'' \<and> map_of lb ''password'' = map_of b ''password''"
    then have lb: "map_of lb ''email'' = map_of b ''email''" "map_of lb ''password'' = map_of b ''password''"
      by simp_all
    have f1': "List.find (owned_by (map_of lb ''email'')) (us @ [new]) = Some new"
      unfolding lb by (rule f1)
    have tr': "truthy (map_of lb ''email'')" "truthy (map_of lb ''password'')"
      unfolding lb by (rule tr)+
    show "POST_login bcrypt_compare jwt_sign env t1 lb fs1 =
        (fs1, Inr (json_response 200
           (JObj [(''token'', JStr (jwt_sign (obj_lit [(''email'', map_of b ''email'')])
              (SECRET_KEY env) ''12h'' t1))])))"
      unfolding login_found [OF c1 w1 f1' tr'] unfolding lb pw using q by simp
  qed
  with h c1 w1 f1 em pw
  show "\<exists>digest new.
               bcrypt_hash (map_of b ''password'') 10 salt = Inr digest \<and>
               collection fs1 ''users.json'' = Some (us @ [new]) \<and> JNull \<notin> set (us @ [new]) \<and>
               List.find (owned_by (map_of b ''email'')) (us @ [new]) = Some new \<and>
               get_field new ''email'' = map_of b ''email'' \<and>
               get_field new ''password'' = Some (JStr digest) \<and>
               (bcrypt_compare (map_of b ''password'') (Some (JStr digest)) = Some True \<and>
                map_of lb ''email'' = map_of b ''email'' \<and>
                map_of lb ''password'' = map_of b ''password'' \<longrightarrow>
                  POST_login bcrypt_compare jwt_sign env t1 lb fs1 =
                    (fs1, Inr (json_response 200
                       (JObj [(''token'', JStr (jwt_sign (obj_lit [(''email'', map_of b ''email'')])
                          (SECRET_KEY env) ''12h'' t1))]))))"
    by blast
qed

text \<open>
  The claim as it was stated does not hold for every password nor for every email. A login
  with the empty password, which does not match the stored digest, is answered 400 and not
  401. A user registered under an email that is an array cannot log in: \<open>===\<close> never
  identifies the array of the request with the array of the stored record, so the login is
  answered 401 with the right password. And a user registered under the email \<open>1e400\<close>,
  which the body parser reads as \<open>Infinity\<close>, is stored with the email \<open>null\<close>, so the
  login with that email and the right password is answered 401 too.
\<close>

theorem login_after_registration_counterexample:
  "POST_login sample_compare sample_sign None 6 [(''email'', JStr ''a@x.com''), (''password'', JStr [])]
       [''users.json'' \<mapsto> Doc (JArr [sample_user (JStr ''a@x.com'')])] =
     ([''users.json'' \<mapsto> Doc (JArr [sample_user (JStr ''a@x.com'')])],
      Inr (json_response 400 (JObj [(''message'', JStr ''Email and password are required'')]))) \<and>
   sample_compare (Some (JStr [])) (get_field (sample_user (JStr ''a@x.com'')) ''password'') = Some False \<and>
   POST_register sample_hash sample_sign None ''salt'' 5 (sample_registration (JArr [JStr ''a''])) Map.empty =
     ([''users.json'' \<mapsto> Doc (JArr [sample_user (JArr [JStr ''a''])])],
      Inr (json_response 201 (JObj [(''token'', JStr ''tokX'')]))) \<and>
   POST_login sample_compare sample_sign None 6 [(''email'', JArr [JStr ''a'']), (''password'', JStr ''p1'')]
       [''users.json'' \<mapsto> Doc (JArr [sample_user (JArr [JStr ''a''])])] =
     ([''users.json'' \<mapsto> Doc (JArr [sample_user (JArr [JStr ''a''])])],
      Inr (json_response 401 (JObj [(''message'', JStr ''Invalid credentials'')]))) \<and>
   POST_register sample_hash sample_sign None ''salt'' 5 (sample_registration (JInf True)) Map.empty =
     ([''users.json'' \<mapsto> Doc (JArr [sample_user JNull])],
      Inr (json_response 201 (JObj [(''token'', JStr ''tokX'')]))) \<and>
   POST_login sample_compare sample_sign None 6 [(''email'', JInf True), (''password'', JStr ''p1'')]
       [''users.json'' \<mapsto> Doc (JArr [sample_user JNull])] =
     ([''users.json'' \<mapsto> Doc (JArr [sample_user JNull])],
      Inr (json_response 401 (JObj [(''message'', JStr ''Invalid credentials'')])))"
proof -
  have "POST_login sample_compare sample_sign None 6 [(''email'', JStr ''a@x.com''), (''password'', JStr [])]
       [''users.json'' \<mapsto> Doc (JArr [sample_user (JStr ''a@x.com'')])] =
     ([''users.json'' \<mapsto> Doc (JArr [sample_user (JStr ''a@x.com'')])],
      Inr (json_response 400 (JObj [(''message'', JStr ''Email and password are required'')])))"
    by (simp add: POST_login_def)
  moreover have "sample_compare (Some (JStr [])) (get_field (sample_user (JStr ''a@x.com'')) ''password'') =
      Some False"
    by (simp add: sample_compare_def sample_user_def get_field_def)
  moreover have "POST_register sample_hash sample_sign None ''salt'' 5
      (sample_registration (JArr [JStr ''a''])) Map.empty =
     ([''users.json'' \<mapsto> Doc (JArr [sample_user (JArr [JStr ''a''])])],
      Inr (json_response 201 (JObj [(''token'', JStr ''tokX'')])))"
    by (simp add: POST_register_def with_validation_def validateRegistration_def
        registration_errors_def require_def sample_registration_def register_def readData_def
        bindE_def sample_user_def sample_hash_def sample_sign_def writeData_def
        JSON_stringify_def Let_def)
  moreover have "POST_login sample_compare sample_sign None 6
       [(''email'', JArr [JStr ''a'']), (''password'', JStr ''p1'')]
       [''users.json'' \<mapsto> Doc (JArr [sample_user (JArr [JStr ''a''])])] =
     ([''users.json'' \<mapsto> Doc (JArr [sample_user (JArr [JStr ''a''])])],
      Inr (json_response 401 (JObj [(''message'', JStr ''Invalid credentials'')])))"
    by (simp add: POST_login_def readData_def bindE_def has_email_def sample_user_def Let_def)
  moreover have "POST_register sample_hash sample_sign None ''salt'' 5
      (sample_registration (JInf True)) Map.empty =
     ([''users.json'' \<mapsto> Doc (JArr [sample_user JNull])],
      Inr (json_response 201 (JObj [(''token'', JStr ''tokX'')])))"
    by (simp add: POST_register_def with_validation_def validateRegistration_def
        registration_errors_def require_def sample_registration_def register_def readData_def
        bindE_def sample_user_def sample_hash_def sample_sign_def writeData_def
        JSON_stringify_def Let_def)
  moreover have "POST_login sample_compare sample_sign None 6
       [(''email'', JInf True), (''password'', JStr ''p1'')]
       [''users.json'' \<mapsto> Doc (JArr [sample_user JNull])] =
     ([''users.json'' \<mapsto> Doc (JArr [sample_user JNull])],
      Inr (json_response 401 (JObj [(''message'', JStr ''Invalid credentials'')])))"
    by (simp add: POST_login_def readData_def bindE_def has_email_def sample_user_def Let_def)
  ultimately show ?thesis by simp
qed

text \<open>An instance: a registration on an empty store, then a right and a wrong login.\<close>

theorem login_after_registration_witness:
  "POST_register sample_hash sample_sign None ''salt'' 5 (sample_registration (JStr ''a@x.com'')) Map.empty =
     ([''users.json'' \<mapsto> Doc (JArr [sample_user (JStr ''a@x.com'')])],
      Inr (json_response 201 (JObj [(''token'', JStr ''tokA'')]))) \<and>
   POST_login sample_compare sample_sign None 6 [(''email'', JStr ''a@x.com''), (''password'', JStr ''p1'')]
       [''users.json'' \<mapsto> Doc (JArr [sample_user (JStr ''a@x.com'')])] =
     ([''users.json'' \<mapsto> Doc (JArr [sample_user (JStr ''a@x.com'')])],
      Inr (json_response 200 (JObj [(''token'', JStr ''tokA'')]))) \<and>
   sample_verify ''tokA'' (SECRET_KEY None) 7 = Some [(''email'', JStr ''a@x.com'')] \<and>
   POST_login sample_compare sample_sign None 6 [(''email'', JStr ''a@x.com''), (''password'', JStr ''bad'')]
       [''users.json'' \<mapsto> Doc (JArr [sample_user (JStr ''a@x.com'')])] =
     ([''users.json'' \<mapsto> Doc (JArr [sample_user (JStr ''a@x.com'')])],
      Inr (json_response 401 (JObj [(''message'', JStr ''Invalid credentials'')])))"
proof -
  let ?u = "sample_user (JStr ''a@x.com'')"
  let ?fs1 = "[''users.json'' \<mapsto> Doc (JArr [?u])]"
  let ?right = "[(''email'', JStr ''a@x.com''), (''password'', JStr ''p1'')]"
  let ?wrong = "[(''email'', JStr ''a@x.com''), (''password'', JStr ''bad'')]"
  have coll: "collection ?fs1 ''users.json'' = Some [?u]"
    by (simp add: sample_collection sample_user_storable storable_prim)
  have wf: "JNull \<notin> set [?u]" by (simp add: sample_user_def)
  have f1: "List.find (owned_by (map_of ?right ''email'')) [?u] = Some ?u \<and> truthy (map_of ?right ''email'')"
    and f2: "List.find (owned_by (map_of ?wrong ''email'')) [?u] = Some ?u \<and> truthy (map_of ?wrong ''email'')"
    by (simp_all add: owned_by_def get_field_def sample_user_def)
  have ok: "truthy (map_of ?right ''password'') \<and>
      sample_compare (map_of ?right ''password'') (get_field ?u ''password'') = Some True"
    and no: "truthy (map_of ?wrong ''password'') \<and>
      sample_compare (map_of ?wrong ''password'') (get_field ?u ''password'') = Some False"
    by (simp_all add: sample_compare_def get_field_def sample_user_def)
  have tok: "sample_sign (obj_lit [(''email'', map_of ?right ''email'')]) (SECRET_KEY None) ''12h'' 6 = ''tokA''"
    by (simp add: sample_sign_def)
  have ver: "sample_verify ''tokA'' (SECRET_KEY None) 7 = Some [(''email'', JStr ''a@x.com'')]"
    by (simp add: sample_verify_def)
  note right = login_after_registration [OF coll wf, where lb = ?right and u = ?u
      and bcrypt_compare = sample_compare and jwt_sign = sample_sign and env = None and ?t1.0 = 6
      and jwt_verify = sample_verify and ?t2.0 = 7 and claim = "[(''email'', JStr ''a@x.com'')]",
      THEN conjunct1, THEN mp, OF f1]
  note wrong = login_after_registration [OF coll wf, where lb = ?wrong and u = ?u
      and bcrypt_compare = sample_compare and jwt_sign = sample_sign and env = None and ?t1.0 = 6
      and jwt_verify = sample_verify and ?t2.0 = 7 and claim = "[(''email'', JStr ''a@x.com'')]",
      THEN conjunct1, THEN mp, OF f2]
  from right [THEN conjunct2, THEN conjunct1, THEN mp, OF ok]
  have l1: "POST_login sample_compare sample_sign None 6 ?right ?fs1 =
      (?fs1, Inr (json_response 200 (JObj [(''token'', JStr ''tokA'')])))"
    unfolding tok by blast
  from wrong [THEN conjunct2, THEN conjunct2, THEN conjunct1, THEN mp, OF no]
  have l2: "POST_login sample_compare sample_sign None 6 ?wrong ?fs1 =
      (?fs1, Inr (json_response 401 (JObj [(''message'', JStr ''Invalid credentials'')])))" .
  from sample_register l1 ver l2 show ?thesis by simp
qed

section \<open>A second registration of an email\<close>

text \<open>
  Claim C4 does not hold of the code. A registration whose email is an array passes the
  validator, an array being truthy, and \<open>users.find\<close> compares the stored emails with the
  email of the request by \<open>===\<close>, which never identifies the array of the request with
  the array of a stored record. So on a users file that already holds a user with the
  email \<open>["a"]\<close>, \<open>POST /register\<close> with the email \<open>["a"]\<close> answers 201 with a token, and
  a second user with that email is stored after the first.
\<close>

theorem duplicate_registration_accepted:
  "POST_register sample_hash sample_sign None ''salt'' 5 (sample_registration (JArr [JStr ''a'']))
      [''users.json'' \<mapsto> Doc (JArr [sample_user (JArr [JStr ''a''])])] =
     ([''users.json'' \<mapsto> Doc (JArr [sample_user (JArr [JStr ''a'']), sample_user (JArr [JStr ''a''])])],
      Inr (json_response 201 (JObj [(''token'', JStr ''tokX'')])))"
  by (simp add: POST_register_def with_validation_def validateRegistration_def
      registration_errors_def require_def sample_registration_def register_def readData_def
      bindE_def has_email_def sample_user_def sample_hash_def sample_sign_def writeData_def
      JSON_stringify_def Let_def)

text \<open>
  The rejection does hold for the emails that \<open>===\<close> identifies with themselves, the JSON
  primitives. Let the users file hold an array without null entries, one of which has the
  email of the request, and let that email be a string, a number or a boolean (or null, or
  absent). Then \<open>POST /register\<close> answers 400 and leaves every file exactly as it was.
\<close>

theorem duplicate_registration_rejected:
  assumes coll: "collection fs ''users.json'' = Some us"
    and wf: "JNull \<notin> set us"
    and present: "u \<in> set us" "get_field u ''email'' = map_of b ''email''"
    and prim: "strict_eq (map_of b ''email'') (map_of b ''email'')"
  shows "\<exists>r. POST_register bcrypt_hash jwt_sign env salt now b fs = (fs, Inr r) \<and>
           status r = 400 \<and> collection fs ''users.json'' = Some us"
proof (cases "validateRegistration b")
  case (Some r)
  then have "r = json_response 400 (JObj [(''errors'', JObj (registration_errors b))])"
    by (auto simp: validateRegistration_def Let_def split: if_splits)
  with Some coll show ?thesis
    by (simp add: POST_register_def with_validation_def json_response_def)
next
  case None
  then have tr: "truthy (map_of b ''email'')"
    by (simp add: validateRegistration_None)
  from present(1) have "us \<noteq> []" by auto
  with coll have "fs ''users.json'' = Some (Doc (JArr us))" by (rule collection_nonempty)
  then have o: "opened fs ''users.json'' = fs" by (rule opened_existing)
  have "owned_by (map_of b ''email'') u"
    using present(2) prim by (simp add: owned_by_def)
  with present(1) have "List.find (owned_by (map_of b ''email'')) us \<noteq> None"
    by (auto simp: find_None)
  then obtain u' where "List.find (owned_by (map_of b ''email'')) us = Some u'" by auto
  then have "POST_register bcrypt_hash jwt_sign env salt now b fs =
      (fs, Inr (json_response 400 (JObj [(''message'', JStr ''User already exists'')])))"
    using register_wf [OF coll wf tr, of bcrypt_hash jwt_sign env salt now]
    by (simp add: POST_register_def with_validation_def None o)
  with coll show ?thesis by (simp add: json_response_def)
qed

text \<open>An instance: a second registration of \<open>a@x.com\<close>.\<close>

theorem duplicate_registration_rejected_witness:
  "\<exists>r. POST_register sample_hash sample_sign None ''salt'' 5 (sample_registration (JStr ''a@x.com''))
      [''users.json'' \<mapsto> Doc (JArr [sample_user (JStr ''a@x.com'')])] =
        ([''users.json'' \<mapsto> Doc (JArr [sample_user (JStr ''a@x.com'')])], Inr r) \<and>
      status r = 400"
proof -
  have wf: "JNull \<notin> set [sample_user (JStr ''a@x.com'')]"
    by (simp add: sample_user_def)
  have p1: "sample_user (JStr ''a@x.com'') \<in> set [sample_user (JStr ''a@x.com'')]" by simp
  have p2: "get_field (sample_user (JStr ''a@x.com'')) ''email'' =
      map_of (sample_registration (JStr ''a@x.com'')) ''email''"
    by (simp add: get_field_def sample_user_def sample_registration_def)
  have prim: "strict_eq (map_of (sample_registration (JStr ''a@x.com'')) ''email'')
      (map_of (sample_registration (JStr ''a@x.com'')) ''email'')"
    by (simp add: sample_registration_def)
  have coll: "collection [''users.json'' \<mapsto> Doc (JArr [sample_user (JStr ''a@x.com'')])] ''users.json'' =
      Some [sample_user (JStr ''a@x.com'')]"
    by (simp add: sample_collection sample_user_storable storable_prim)
  show ?thesis
    using duplicate_registration_rejected [OF coll wf p1 p2 prim,
        of sample_hash sample_sign None "''salt''" 5]
    by blast
qed

section \<open>Exactness of account deletion\<close>

text \<open>
  Claim C5, as amended. Let the caller be authenticated with an email \<open>e\<close> that is truthy
  and a JSON primitive, and let the users file and the tasks file each hold an array
  without null entries. Then \<open>DELETE /delete-account\<close> answers 200; afterwards the users are
  exactly the former users whose email is not \<open>e\<close>, in their order, the tasks are exactly
  the former tasks whose email is not \<open>e\<close>, in their order, and no other file has changed.
  When the caller's email is falsy the route answers 400 and changes nothing.
\<close>

theorem account_deletion_is_exact:
  assumes auth: "authenticate jwt_verify (SECRET_KEY env) now authHeader = Inr user"
    and cu: "collection fs ''users.json'' = Some us"
    and ct: "collection fs ''tasks.json'' = Some ts"
    and wu: "JNull \<notin> set us"
    and wt: "JNull \<notin> set ts"
  shows "(\<forall>e. map_of user ''email'' = Some e \<and> truthy (Some e) \<and> strict_eq (Some e) (Some e) \<longrightarrow>
            (\<exists>fs'. DELETE_account jwt_verify env now authHeader fs =
               (fs', Inr (json_response 200
                  (JObj [(''message'', JStr ''Account and all associated tasks deleted.'')]))) \<and>
             collection fs' ''users.json'' = Some (filter (\<lambda>u. get_field u ''email'' \<noteq> Some e) us) \<and>
             collection fs' ''tasks.json'' = Some (filter (\<lambda>t. get_field t ''email'' \<noteq> Some e) ts) \<and>
             (\<forall>file. file \<noteq> ''users.json'' \<and> file \<noteq> ''tasks.json'' \<longrightarrow> fs' file = fs file))) \<and>
         (\<not> truthy (map_of user ''email'') \<longrightarrow>
            DELETE_account jwt_verify env now authHeader fs =
              (fs, Inr (json_response 400
                 (JObj [(''message'', JStr ''Invalid user. Cannot delete account.'')]))))"
proof (intro conjI allI impI)
  fix e
  assume e: "map_of user ''email'' = Some e \<and> truthy (Some e) \<and> strict_eq (Some e) (Some e)"
  then have email: "map_of user ''email'' = Some e" and tr: "truthy (Some e)"
    and prim: "strict_eq (Some e) (Some e)"
    by simp_all
  have o: "\<And>x. owned_by (Some e) x \<longleftrightarrow> get_field x ''email'' = Some e"
    using strict_eq_self [OF prim] by (simp add: owned_by_def)
  have d: "DELETE_account jwt_verify env now authHeader fs =
     (writeData
        (writeData fs ''users.json'' (JArr (filter (\<lambda>u. get_field u ''email'' \<noteq> Some e) us)))
        ''tasks.json'' (JArr (filter (\<lambda>t. get_field t ''email'' \<noteq> Some e) ts)),
      Inr (json_response 200 (JObj [(''message'', JStr ''Account and all associated tasks deleted.'')])))"
    using delete_account_wf [OF cu ct wu wt, of user] tr
    by (simp add: DELETE_account_def with_auth_def auth email o)
  show "\<exists>fs'. DELETE_account jwt_verify env now authHeader fs =
               (fs', Inr (json_response 200
                  (JObj [(''message'', JStr ''Account and all associated tasks deleted.'')]))) \<and>
             collection fs' ''users.json'' = Some (filter (\<lambda>u. get_field u ''email'' \<noteq> Some e) us) \<and>
             collection fs' ''tasks.json'' = Some (filter (\<lambda>t. get_field t ''email'' \<noteq> Some e) ts) \<and>
             (\<forall>file. file \<noteq> ''users.json'' \<and> file \<noteq> ''tasks.json'' \<longrightarrow> fs' file = fs file)"
    unfolding d
    by (simp add: collection_writeData_other writeData_other list_all_iff
        collection_storable [OF cu, unfolded list_all_iff]
        collection_storable [OF ct, unfolded list_all_iff])
next
  assume "\<not> truthy (map_of user ''email'')"
  then show "DELETE_account jwt_verify env now authHeader fs =
      (fs, Inr (json_response 400 (JObj [(''message'', JStr ''Invalid user. Cannot delete account.'')])))"
    by (simp add: DELETE_account_def with_auth_def auth delete_account_def)
qed

text \<open>
  The claim as it was stated, for every email, does not hold for an email that is an
  array: the route answers 200 and removes nothing, since \<open>!==\<close> holds between the token's
  array and every stored email. For a falsy email, here the empty string, the guard of the
  route answers 400 and removes nothing.
\<close>

theorem account_deletion_is_exact_counterexample:
  "DELETE_account (\<lambda>token key now. Some [(''email'', JArr [JStr ''a''])]) None 9 (Some ''Bearer tokX'')
      [''users.json'' \<mapsto> Doc (JArr [sample_user (JArr [JStr ''a''])]),
       ''tasks.json'' \<mapsto> Doc (JArr [])] =
     ([''users.json'' \<mapsto> Doc (JArr [sample_user (JArr [JStr ''a''])]),
       ''tasks.json'' \<mapsto> Doc (JArr [])],
      Inr (json_response 200 (JObj [(''message'', JStr ''Account and all associated tasks deleted.'')]))) \<and>
   get_field (sample_user (JArr [JStr ''a''])) ''email'' = Some (JArr [JStr ''a'']) \<and>
   DELETE_account (\<lambda>token key now. Some [(''email'', JStr [])]) None 9 (Some ''Bearer tokX'')
      [''users.json'' \<mapsto> Doc (JArr [sample_user (JStr [])]),
       ''tasks.json'' \<mapsto> Doc (JArr [])] =
     ([''users.json'' \<mapsto> Doc (JArr [sample_user (JStr [])]),
       ''tasks.json'' \<mapsto> Doc (JArr [])],
      Inr (json_response 400 (JObj [(''message'', JStr ''Invalid user. Cannot delete account.'')]))) \<and>
   get_field (sample_user (JStr [])) ''email'' = Some (JStr [])"
proof -
  have "DELETE_account (\<lambda>token key now. Some [(''email'', JArr [JStr ''a''])]) None 9 (Some ''Bearer tokX'')
      [''users.json'' \<mapsto> Doc (JArr [sample_user (JArr [JStr ''a''])]),
       ''tasks.json'' \<mapsto> Doc (JArr [])] =
     ([''users.json'' \<mapsto> Doc (JArr [sample_user (JArr [JStr ''a''])]),
       ''tasks.json'' \<mapsto> Doc (JArr [])],
      Inr (json_response 200 (JObj [(''message'', JStr ''Account and all associated tasks deleted.'')])))"
    by (simp add: DELETE_account_def with_auth_def authenticate_def startsWith_def item_def
        delete_account_def readData_def bindE_def not_email_def sample_user_def writeData_def
        JSON_stringify_def fun_eq_iff)
  moreover have "DELETE_account (\<lambda>token key now. Some [(''email'', JStr [])]) None 9 (Some ''Bearer tokX'')
      [''users.json'' \<mapsto> Doc (JArr [sample_user (JStr [])]),
       ''tasks.json'' \<mapsto> Doc (JArr [])] =
     ([''users.json'' \<mapsto> Doc (JArr [sample_user (JStr [])]),
       ''tasks.json'' \<mapsto> Doc (JArr [])],
      Inr (json_response 400 (JObj [(''message'', JStr ''Invalid user. Cannot delete account.'')])))"
    by (simp add: DELETE_account_def with_auth_def authenticate_def startsWith_def item_def
        delete_account_def)
  ultimately show ?thesis
    by (simp add: get_field_def sample_user_def)
qed

text \<open>An instance: of two users with one task each, user A deletes their account.\<close>

theorem account_deletion_is_exact_witness:
  "DELETE_account sample_verify None 9 (Some ''Bearer tokA'')
      [''users.json'' \<mapsto> Doc (JArr [sample_user (JStr ''a@x.com''), sample_user (JStr ''b@x.com'')]),
       ''tasks.json'' \<mapsto> Doc (JArr [sample_task ''b@x.com'' ''t1'', sample_task ''a@x.com'' ''t2''])] =
     ([''users.json'' \<mapsto> Doc (JArr [sample_user (JStr ''b@x.com'')]),
       ''tasks.json'' \<mapsto> Doc (JArr [sample_task ''b@x.com'' ''t1''])],
      Inr (json_response 200 (JObj [(''message'', JStr ''Account and all associated tasks deleted.'')])))"
proof -
  let ?us = "[sample_user (JStr ''a@x.com''), sample_user (JStr ''b@x.com'')]"
  let ?ts = "[sample_task ''b@x.com'' ''t1'', sample_task ''a@x.com'' ''t2'']"
  let ?fs = "[''users.json'' \<mapsto> Doc (JArr ?us), ''tasks.json'' \<mapsto> Doc (JArr ?ts)]"
  have cu: "collection ?fs ''users.json'' = Some ?us"
    by (simp add: collection_cases sample_user_storable storable_prim)
  have ct: "collection ?fs ''tasks.json'' = Some ?ts"
    by (simp add: collection_cases sample_task_storable)
  have wu: "JNull \<notin> set ?us" by (simp add: sample_user_def)
  have wt: "JNull \<notin> set ?ts" by (simp add: sample_task_def)
  have email: "map_of [(''email'', JStr ''a@x.com'')] ''email'' = Some (JStr ''a@x.com'')" by simp
  have tr: "truthy (Some (JStr ''a@x.com''))" by simp
  have prim: "strict_eq (Some (JStr ''a@x.com'')) (Some (JStr ''a@x.com''))" by simp
  from account_deletion_is_exact [OF sample_auth(1) [of 9] cu ct wu wt] email tr prim
  obtain fs' where d: "DELETE_account sample_verify None 9 (Some ''Bearer tokA'') ?fs =
        (fs', Inr (json_response 200 (JObj [(''message'', JStr ''Account and all associated tasks deleted.'')])))"
    and u: "collection fs' ''users.json'' = Some (filter (\<lambda>u. get_field u ''email'' \<noteq> Some (JStr ''a@x.com'')) ?us)"
    and t: "collection fs' ''tasks.json'' = Some (filter (\<lambda>t. get_field t ''email'' \<noteq> Some (JStr ''a@x.com'')) ?ts)"
    and o: "\<forall>file. file \<noteq> ''users.json'' \<and> file \<noteq> ''tasks.json'' \<longrightarrow> fs' file = ?fs file"
    by blast
  have "fs' ''users.json'' = Some (Doc (JArr [sample_user (JStr ''b@x.com'')]))"
    using u by (simp add: collection_cases get_field_def sample_user_def)
  moreover have "fs' ''tasks.json'' = Some (Doc (JArr [sample_task ''b@x.com'' ''t1'']))"
    using t by (simp add: collection_cases get_field_def sample_task_def)
  ultimately have "fs' = [''users.json'' \<mapsto> Doc (JArr [sample_user (JStr ''b@x.com'')]),
       ''tasks.json'' \<mapsto> Doc (JArr [sample_task ''b@x.com'' ''t1''])]"
    using o by (auto simp: fun_eq_iff)
  with d show ?thesis by simp
qed

section \<open>The authentication gate\<close>

text \<open>
  Claim C6. On every protected route, each of which is \<open>with_auth\<close> applied to its
  handler: when the Authorization header is absent or does not start with \<open>Bearer\<close> and a
  space, the answer is 403, the files are untouched and the handler does not run; when the
  header starts so and \<open>jwt.verify\<close> rejects the token, the text between that space and the
  next one, the answer is 401, the files are untouched and the handler does not run;
  otherwise the handler runs on the decoded payload, from which it reads the caller's email.
\<close>

theorem authentication_gate:
  "((authHeader = None \<or> (\<exists>h. authHeader = Some h \<and> \<not> startsWith h ''Bearer '')) \<longrightarrow>
      authenticate jwt_verify (SECRET_KEY env) now authHeader = Inl no_token \<and>
      with_auth jwt_verify env now authHeader handler fs = (fs, Inr no_token)) \<and>
   (\<forall>rest. authHeader = Some (''Bearer '' @ rest) \<longrightarrow>
      (case jwt_verify (takeWhile (\<lambda>c. c \<noteq> CHR '' '') rest) (SECRET_KEY env) now of
         None \<Rightarrow>
           authenticate jwt_verify (SECRET_KEY env) now authHeader = Inl invalid_token \<and>
           with_auth jwt_verify env now authHeader handler fs = (fs, Inr invalid_token)
       | Some decoded \<Rightarrow>
           authenticate jwt_verify (SECRET_KEY env) now authHeader = Inr decoded \<and>
           with_auth jwt_verify env now authHeader handler fs = handler decoded fs)) \<and>
   status no_token = 403 \<and> status invalid_token = 401 \<and>
   GET_task jwt_verify conv env now authHeader taskId =
     with_auth jwt_verify env now authHeader (get_task conv taskId) \<and>
   POST_tasks jwt_verify toISOString env now authHeader b =
     with_auth jwt_verify env now authHeader
       (\<lambda>user. with_validation validateTask b (create_task toISOString now b user)) \<and>
   PUT_task jwt_verify conv env now authHeader taskId b =
     with_auth jwt_verify env now authHeader
       (\<lambda>user. with_validation validateTask b (update_task conv taskId b user)) \<and>
   DELETE_task jwt_verify conv env now authHeader taskId =
     with_auth jwt_verify env now authHeader (delete_task conv taskId) \<and>
   DELETE_account jwt_verify env now authHeader =
     with_auth jwt_verify env now authHeader delete_account \<and>
   GET_tasks jwt_verify env now authHeader =
     with_auth jwt_verify env now authHeader list_tasks \<and>
   DELETE_tasks jwt_verify env now authHeader =
     with_auth jwt_verify env now authHeader delete_all_tasks"
proof (intro conjI allI impI)
  assume "authHeader = None \<or> (\<exists>h. authHeader = Some h \<and> \<not> startsWith h ''Bearer '')"
  then show a: "authenticate jwt_verify (SECRET_KEY env) now authHeader = Inl no_token"
    by (auto simp: authenticate_def)
  show "with_auth jwt_verify env now authHeader handler fs = (fs, Inr no_token)"
    by (simp add: with_auth_def a)
next
  fix rest assume h: "authHeader = Some (''Bearer '' @ rest)"
  have s: "startsWith (''Bearer '' @ rest) ''Bearer ''"
    unfolding startsWith_iff by blast
  have ne: "''Bearer '' @ rest \<noteq> []" by simp
  have a: "authenticate jwt_verify (SECRET_KEY env) now authHeader =
      (case jwt_verify (takeWhile (\<lambda>c. c \<noteq> CHR '' '') rest) (SECRET_KEY env) now of
         None \<Rightarrow> Inl invalid_token | Some decoded \<Rightarrow> Inr decoded)"
    unfolding authenticate_def h option.case token_of_header using s ne by simp
  show "case jwt_verify (takeWhile (\<lambda>c. c \<noteq> CHR '' '') rest) (SECRET_KEY env) now of
      None \<Rightarrow>
        authenticate jwt_verify (SECRET_KEY env) now authHeader = Inl invalid_token \<and>
        with_auth jwt_verify env now authHeader handler fs = (fs, Inr invalid_token)
    | Some decoded \<Rightarrow>
        authenticate jwt_verify (SECRET_KEY env) now authHeader = Inr decoded \<and>
        with_auth jwt_verify env now authHeader handler fs = handler decoded fs"
    by (simp add: with_auth_def a split: option.splits)
next
  show "status no_token = 403" by (simp add: no_token_def json_response_def)
  show "status invalid_token = 401" by (simp add: invalid_token_def json_response_def)
qed (simp_all add: GET_task_def POST_tasks_def PUT_task_def DELETE_task_def DELETE_account_def
    GET_tasks_def DELETE_tasks_def fun_eq_iff)

text \<open>An instance: no header, a header of another scheme, a forged token and a good token.\<close>

theorem authentication_gate_witness:
  "DELETE_account sample_verify None 9 None [''users.json'' \<mapsto> Doc (JArr [])] =
     ([''users.json'' \<mapsto> Doc (JArr [])], Inr no_token) \<and>
   DELETE_account sample_verify None 9 (Some ''Basic tokA'') [''users.json'' \<mapsto> Doc (JArr [])] =
     ([''users.json'' \<mapsto> Doc (JArr [])], Inr no_token) \<and>
   DELETE_account sample_verify None 9 (Some ''Bearer forged'') [''users.json'' \<mapsto> Doc (JArr [])] =
     ([''users.json'' \<mapsto> Doc (JArr [])], Inr invalid_token) \<and>
   DELETE_account sample_verify None 9 (Some ''Bearer tokA'') [''users.json'' \<mapsto> Doc (JArr [])] =
     delete_account [(''email'', JStr ''a@x.com'')] [''users.json'' \<mapsto> Doc (JArr [])]"
proof -
  let ?fs = "[''users.json'' \<mapsto> Doc (JArr [])]"
  have n: "\<not> startsWith ''Basic tokA'' ''Bearer ''"
    by (simp add: startsWith_def)
  have 1: "DELETE_account sample_verify None 9 None ?fs = (?fs, Inr no_token)"
    using authentication_gate [where authHeader = None and jwt_verify = sample_verify
        and env = None and now = 9 and handler = delete_account and fs = ?fs]
    by simp
  have 2: "DELETE_account sample_verify None 9 (Some ''Basic tokA'') ?fs = (?fs, Inr no_token)"
    using n authentication_gate [where authHeader = "Some ''Basic tokA''"
        and jwt_verify = sample_verify and env = None and now = 9 and handler = delete_account
        and fs = ?fs]
    by simp
  have 3: "DELETE_account sample_verify None 9 (Some ''Bearer forged'') ?fs = (?fs, Inr invalid_token)"
    using authentication_gate [where authHeader = "Some (''Bearer '' @ ''forged'')"
        and jwt_verify = sample_verify and env = None and now = 9 and handler = delete_account
        and fs = ?fs]
    by (simp add: sample_verify_def)
  have 4: "DELETE_account sample_verify None 9 (Some ''Bearer tokA'') ?fs =
      delete_account [(''email'', JStr ''a@x.com'')] ?fs"
    using authentication_gate [where authHeader = "Some (''Bearer '' @ ''tokA'')"
        and jwt_verify = sample_verify and env = None and now = 9 and handler = delete_account
        and fs = ?fs]
    by (simp add: sample_verify_def)
  from 1 2 3 4 show ?thesis by simp
qed

section \<open>Creating a task and reading it back\<close>

text \<open>
  Claim C7, as amended. Let the caller be authenticated for both requests, with an email
  that is a JSON primitive other than a non-finite number (or none), let the body pass
  the task validator and the tasks file hold an array without null entries, let the route
  parameter of the read be loosely equal to the id that the creation returns, and let the
  caller own no earlier stored task whose id is loosely equal to that parameter. Then
  \<open>POST /tasks\<close> answers 200 with a task, appended to the collection, and \<open>GET /tasks/:id\<close>
  afterwards answers 200 with the same task. Its \<open>id\<close> is the time of the creation, its
  \<open>email\<close> is the caller's, each of the seven validated fields has the value the body
  supplied, which is truthy, as \<open>JSON.stringify\<close> writes it: the value itself when it
  holds no non-finite number, and with \<open>null\<close> in the place of each non-finite number
  otherwise. The task has no other property. The validator rejects a body without
  \<open>status\<close> or \<open>date\<close>, so the handler's defaults for them never apply.
\<close>

theorem create_then_get_round_trip:
  assumes auth: "authenticate jwt_verify (SECRET_KEY env) now authHeader = Inr user"
    and auth': "authenticate jwt_verify (SECRET_KEY env) now' authHeader' = Inr user"
    and valid: "validateTask b = None"
    and coll: "collection fs ''tasks.json'' = Some ts"
    and wf: "JNull \<notin> set ts"
    and prim: "strict_eq (map_option written (map_of user ''email'')) (map_of user ''email'')"
    and idp: "conv (JNum (of_nat now)) taskId"
    and fresh: "\<forall>t\<in>set ts. \<not> (id_matches conv taskId t \<and> owned_by (map_of user ''email'') t)"
  shows "\<exists>fs1 task.
           POST_tasks jwt_verify toISOString env now authHeader b fs =
             (fs1, Inr \<lparr>status = 200, body = task\<rparr>) \<and>
           collection fs1 ''tasks.json'' = Some (ts @ [task]) \<and>
           GET_task jwt_verify conv env now' authHeader' taskId fs1 =
             (fs1, Inr \<lparr>status = 200, body = task\<rparr>) \<and>
           get_field task ''id'' = Some (JNum (of_nat now)) \<and>
           get_field task ''email'' = map_of user ''email'' \<and>
           (\<forall>k\<in>set task_fields.
              truthy (map_of b k) \<and> get_field task k = map_option written (map_of b k) \<and>
              (\<forall>v. map_of b k = Some v \<and> storable v \<longrightarrow> get_field task k = Some v)) \<and>
           (\<forall>k. get_field task k \<noteq> None \<longrightarrow> k \<in> set ([''id'', ''email''] @ task_fields))"
proof -
  let ?lit = "[(''id'', Some (JNum (of_nat now))),
                  (''email'', map_of user ''email''),
                  (''title'', map_of b ''title''),
                  (''content'', map_of b ''content''),
                  (''category'', map_of b ''category''),
                  (''priority'', map_of b ''priority''),
                  (''tags'', map_of b ''tags''),
                  (''status'', or_else (map_of b ''status'') (JStr ''pending'')),
                  (''date'', or_else (map_of b ''date'') (JStr (toISOString now)))]"
  let ?new = "JObj (obj_lit ?lit)"
  let ?task = "written ?new"
  let ?fs1 = "writeData fs ''tasks.json'' (JArr (ts @ [?new]))"
  note st = collection_storable [OF coll]
  from valid have tr: "truthy (map_of b ''title'')" "truthy (map_of b ''content'')"
      "truthy (map_of b ''category'')" "truthy (map_of b ''priority'')" "truthy (map_of b ''tags'')"
      "truthy (map_of b ''status'')" "truthy (map_of b ''date'')"
    by (simp_all add: validateTask_None)
  have d: "distinct (map fst ?lit)" by simp
  have gf: "\<And>k. get_field ?new k = (case map_of ?lit k of Some (Some v) \<Rightarrow> Some v | _ \<Rightarrow> None)"
    unfolding get_field_def json.case by (rule map_of_obj_lit [OF d])
  have gw: "\<And>k. get_field ?task k = map_option written (get_field ?new k)"
    unfolding get_field_written by (simp only: get_field_def json.case)
  have post: "POST_tasks jwt_verify toISOString env now authHeader b fs =
      (?fs1, Inr \<lparr>status = 200, body = ?task\<rparr>)"
    using create_task_wf [OF coll, of toISOString now b user]
    by (simp add: POST_tasks_def with_auth_def auth with_validation_def valid json_response_def
        del: written.simps)
  have coll1: "collection ?fs1 ''tasks.json'' = Some (ts @ [?task])"
    unfolding collection_writeData_written
    by (simp add: map_written_storable [OF st] del: written.simps)
  have gid: "get_field ?task ''id'' = Some (JNum (of_nat now))"
    unfolding gw by (simp add: gf del: obj_lit.simps)
  have gem0: "get_field ?new ''email'' = map_of user ''email''"
    by (simp add: gf del: obj_lit.simps split: option.splits)
  have gem: "get_field ?task ''email'' = map_of user ''email''"
    unfolding gw gem0 using prim by (rule strict_eq_imp_eq)
  have opt: "\<And>x::jsval. (case x of None \<Rightarrow> None | Some v \<Rightarrow> Some v) = x"
    by (simp split: option.splits)
  have g: "get_field ?new ''title'' = map_of b ''title''"
      "get_field ?new ''content'' = map_of b ''content''"
      "get_field ?new ''category'' = map_of b ''category''"
      "get_field ?new ''priority'' = map_of b ''priority''"
      "get_field ?new ''tags'' = map_of b ''tags''"
      "get_field ?new ''status'' = map_of b ''status''"
      "get_field ?new ''date'' = map_of b ''date''"
    by (simp_all add: get_field_obj_lit or_else_truthy tr opt del: obj_lit.simps)
  have gfl0: "\<forall>k\<in>set task_fields. truthy (map_of b k) \<and> get_field ?new k = map_of b k"
    unfolding task_fields_def using g tr by simp
  have gfl: "\<forall>k\<in>set task_fields.
      truthy (map_of b k) \<and> get_field ?task k = map_option written (map_of b k) \<and>
      (\<forall>v. map_of b k = Some v \<and> storable v \<longrightarrow> get_field ?task k = Some v)"
  proof
    fix k assume "k \<in> set task_fields"
    with gfl0 have t: "truthy (map_of b k)" and e: "get_field ?new k = map_of b k" by simp_all
    have w: "get_field ?task k = map_option written (map_of b k)"
      unfolding gw e ..
    have "\<forall>v. map_of b k = Some v \<and> storable v \<longrightarrow> get_field ?task k = Some v"
      unfolding w by (simp add: storable_def)
    with t w show "truthy (map_of b k) \<and> get_field ?task k = map_option written (map_of b k) \<and>
      (\<forall>v. map_of b k = Some v \<and> storable v \<longrightarrow> get_field ?task k = Some v)"
      by (intro conjI)
  qed
  have keys: "\<forall>k. get_field ?task k \<noteq> None \<longrightarrow> k \<in> set ([''id'', ''email''] @ task_fields)"
  proof (intro allI impI)
    fix k assume nn: "get_field ?task k \<noteq> None"
    then have nn': "get_field ?new k \<noteq> None" unfolding gw by simp
    have "map_of ?lit k \<noteq> None"
    proof
      assume "map_of ?lit k = None"
      then have "get_field ?new k = None"
        by (simp only: gf option.case)
      with nn' show False by (rule notE)
    qed
    then have "k \<in> fst ` set ?lit" by (simp only: map_of_eq_None_iff not_not)
    then show "k \<in> set ([''id'', ''email''] @ task_fields)"
      by (auto simp: task_fields_def)
  qed
  have m: "mine conv user taskId ?task"
    unfolding mine_def id_matches_def owned_by_def gid gem
    using idp prim strict_eq_imp_eq [OF prim] by simp
  have wf1: "JNull \<notin> set (ts @ [?task])" using wf by simp
  have "List.find (mine conv user taskId) (ts @ [?task]) = Some ?task"
    using fresh m by (intro find_append_fresh) (simp_all add: mine_def del: written.simps)
  then have get: "GET_task jwt_verify conv env now' authHeader' taskId ?fs1 =
      (?fs1, Inr \<lparr>status = 200, body = ?task\<rparr>)"
    using get_task_wf [OF coll1 wf1, of conv taskId user]
    by (simp add: GET_task_def with_auth_def auth' opened_existing writeData_def json_response_def
        written_idem del: written.simps)
  from post coll1 get gid gem gfl keys show ?thesis by blast
qed

text \<open>
  The claim as it was stated, for every caller and accepted body, does not hold. The id is
  the clock's millisecond: when the caller already owns a task created in the same
  millisecond, the read by the returned id answers that older task. For a caller whose
  email is an array the creation succeeds and the read answers 404. And a body whose
  priority is the literal \<open>1e400\<close>, which the body parser reads as \<open>Infinity\<close> and the
  validator accepts, is answered and stored with the priority \<open>null\<close>.
\<close>

theorem create_then_get_round_trip_counterexample:
  "POST_tasks sample_verify (\<lambda>n. ''iso'') None 5 (Some ''Bearer tokA'') (sample_body ''new'')
      [''tasks.json'' \<mapsto> Doc (JArr [sample_task ''a@x.com'' ''old''])] =
     ([''tasks.json'' \<mapsto> Doc (JArr [sample_task ''a@x.com'' ''old'', sample_task ''a@x.com'' ''new''])],
      Inr (json_response 200 (sample_task ''a@x.com'' ''new''))) \<and>
   GET_task sample_verify sample_conv None 6 (Some ''Bearer tokA'') ''5''
      [''tasks.json'' \<mapsto> Doc (JArr [sample_task ''a@x.com'' ''old'', sample_task ''a@x.com'' ''new''])] =
     ([''tasks.json'' \<mapsto> Doc (JArr [sample_task ''a@x.com'' ''old'', sample_task ''a@x.com'' ''new''])],
      Inr (json_response 200 (sample_task ''a@x.com'' ''old''))) \<and>
   sample_task ''a@x.com'' ''old'' \<noteq> sample_task ''a@x.com'' ''new'' \<and>
   POST_tasks (\<lambda>token key now. Some [(''email'', JArr [JStr ''a''])]) (\<lambda>n. ''iso'') None 5
      (Some ''Bearer tokX'') (sample_body ''new'') [''tasks.json'' \<mapsto> Doc (JArr [])] =
     ([''tasks.json'' \<mapsto> Doc (JArr [JObj ([(''id'', JNum 5), (''email'', JArr [JStr ''a''])] @ sample_body ''new'')])],
      Inr (json_response 200 (JObj ([(''id'', JNum 5), (''email'', JArr [JStr ''a''])] @ sample_body ''new'')))) \<and>
   GET_task (\<lambda>token key now. Some [(''email'', JArr [JStr ''a''])]) sample_conv None 6
      (Some ''Bearer tokX'') ''5''
      [''tasks.json'' \<mapsto> Doc (JArr [JObj ([(''id'', JNum 5), (''email'', JArr [JStr ''a''])] @ sample_body ''new'')])] =
     ([''tasks.json'' \<mapsto> Doc (JArr [JObj ([(''id'', JNum 5), (''email'', JArr [JStr ''a''])] @ sample_body ''new'')])],
      Inr task_not_found) \<and>
   validateTask (sample_overflow (JInf True)) = None \<and>
   POST_tasks sample_verify (\<lambda>n. ''iso'') None 5 (Some ''Bearer tokA'') (sample_overflow (JInf True))
      [''tasks.json'' \<mapsto> Doc (JArr [])] =
     ([''tasks.json'' \<mapsto> Doc (JArr [JObj ([(''id'', JNum 5), (''email'', JStr ''a@x.com'')] @ sample_overflow JNull)])],
      Inr \<lparr>status = 200, body = JObj ([(''id'', JNum 5), (''email'', JStr ''a@x.com'')] @ sample_overflow JNull)\<rparr>)"
proof -
  have "GET_task sample_verify sample_conv None 6 (Some ''Bearer tokA'') ''5''
      [''tasks.json'' \<mapsto> Doc (JArr [sample_task ''a@x.com'' ''old'', sample_task ''a@x.com'' ''new''])] =
     ([''tasks.json'' \<mapsto> Doc (JArr [sample_task ''a@x.com'' ''old'', sample_task ''a@x.com'' ''new''])],
      Inr (json_response 200 (sample_task ''a@x.com'' ''old'')))"
    by (simp add: GET_task_def with_auth_def sample_auth get_task_def readData_def bindE_def
        is_task_def sample_task_def sample_conv_def)
  moreover have "sample_task ''a@x.com'' ''old'' \<noteq> sample_task ''a@x.com'' ''new''"
    by (simp add: sample_task_def sample_body_def)
  moreover have "POST_tasks (\<lambda>token key now. Some [(''email'', JArr [JStr ''a''])]) (\<lambda>n. ''iso'') None 5
      (Some ''Bearer tokX'') (sample_body ''new'') [''tasks.json'' \<mapsto> Doc (JArr [])] =
     ([''tasks.json'' \<mapsto> Doc (JArr [JObj ([(''id'', JNum 5), (''email'', JArr [JStr ''a''])] @ sample_body ''new'')])],
      Inr (json_response 200 (JObj ([(''id'', JNum 5), (''email'', JArr [JStr ''a''])] @ sample_body ''new''))))"
    by (simp add: POST_tasks_def with_auth_def authenticate_def startsWith_def item_def
        with_validation_def validateTask_def task_errors_def require_def sample_body_def
        create_task_def readData_def or_else_def writeData_def JSON_stringify_def json_response_def
        Let_def)
  moreover have "GET_task (\<lambda>token key now. Some [(''email'', JArr [JStr ''a''])]) sample_conv None 6
      (Some ''Bearer tokX'') ''5''
      [''tasks.json'' \<mapsto> Doc (JArr [JObj ([(''id'', JNum 5), (''email'', JArr [JStr ''a''])] @ sample_body ''new'')])] =
     ([''tasks.json'' \<mapsto> Doc (JArr [JObj ([(''id'', JNum 5), (''email'', JArr [JStr ''a''])] @ sample_body ''new'')])],
      Inr task_not_found)"
    by (simp add: GET_task_def with_auth_def authenticate_def startsWith_def item_def
        get_task_def readData_def bindE_def is_task_def sample_conv_def)
  moreover have "POST_tasks sample_verify (\<lambda>n. ''iso'') None 5 (Some ''Bearer tokA'') (sample_overflow (JInf True))
      [''tasks.json'' \<mapsto> Doc (JArr [])] =
     ([''tasks.json'' \<mapsto> Doc (JArr [JObj ([(''id'', JNum 5), (''email'', JStr ''a@x.com'')] @ sample_overflow JNull)])],
      Inr \<lparr>status = 200, body = JObj ([(''id'', JNum 5), (''email'', JStr ''a@x.com'')] @ sample_overflow JNull)\<rparr>)"
    by (simp add: POST_tasks_def with_auth_def sample_auth
        with_validation_def validateTask_def task_errors_def require_def sample_overflow_def
        create_task_def readData_def or_else_def writeData_def JSON_stringify_def json_response_def
        Let_def)
  moreover have "list_all storable [sample_task ''a@x.com'' ''old'']"
    by (simp add: sample_task_storable)
  ultimately show ?thesis
    using sample_post [of "[sample_task ''a@x.com'' ''old'']"] sample_overflow_valid by simp
qed

text \<open>An instance: user A creates a task next to a task of user B, and reads it back.\<close>

theorem create_then_get_round_trip_witness:
  "POST_tasks sample_verify (\<lambda>n. ''iso'') None 5 (Some ''Bearer tokA'') (sample_body ''new'')
      [''tasks.json'' \<mapsto> Doc (JArr [sample_task ''b@x.com'' ''other''])] =
     ([''tasks.json'' \<mapsto> Doc (JArr [sample_task ''b@x.com'' ''other'', sample_task ''a@x.com'' ''new''])],
      Inr (json_response 200 (sample_task ''a@x.com'' ''new''))) \<and>
   GET_task sample_verify sample_conv None 6 (Some ''Bearer tokA'') ''5''
      [''tasks.json'' \<mapsto> Doc (JArr [sample_task ''b@x.com'' ''other'', sample_task ''a@x.com'' ''new''])] =
     ([''tasks.json'' \<mapsto> Doc (JArr [sample_task ''b@x.com'' ''other'', sample_task ''a@x.com'' ''new''])],
      Inr (json_response 200 (sample_task ''a@x.com'' ''new'')))"
proof -
  let ?fs = "[''tasks.json'' \<mapsto> Doc (JArr [sample_task ''b@x.com'' ''other''])]"
  have wf: "JNull \<notin> set [sample_task ''b@x.com'' ''other'']"
    by (simp add: sample_task_def)
  have prim: "strict_eq (map_option written (map_of [(''email'', JStr ''a@x.com'')] ''email''))
      (map_of [(''email'', JStr ''a@x.com'')] ''email'')"
    by simp
  have idp: "sample_conv (JNum (of_nat 5)) ''5''"
    by (simp add: sample_conv_def)
  have fresh: "\<forall>t\<in>set [sample_task ''b@x.com'' ''other''].
      \<not> (id_matches sample_conv ''5'' t \<and> owned_by (map_of [(''email'', JStr ''a@x.com'')] ''email'') t)"
    by (simp add: owned_by_def get_field_def sample_task_def)
  have st: "list_all storable [sample_task ''b@x.com'' ''other'']"
    by (simp add: sample_task_storable)
  have w: "written (sample_task ''a@x.com'' ''new'') = sample_task ''a@x.com'' ''new''"
    using sample_task_storable by (simp add: storable_def)
  from create_then_get_round_trip [OF sample_auth(1) [of 5] sample_auth(1) [of 6] sample_body_new
      sample_tasks wf prim idp fresh, of "\<lambda>n. ''iso''"]
  obtain fs1 task where
    p: "POST_tasks sample_verify (\<lambda>n. ''iso'') None 5 (Some ''Bearer tokA'') (sample_body ''new'') ?fs =
        (fs1, Inr \<lparr>status = 200, body = task\<rparr>)" and
    g: "GET_task sample_verify sample_conv None 6 (Some ''Bearer tokA'') ''5'' fs1 =
        (fs1, Inr \<lparr>status = 200, body = task\<rparr>)"
    by blast
  from p sample_post [OF st]
  have "fs1 = [''tasks.json'' \<mapsto> Doc (JArr [sample_task ''b@x.com'' ''other'', sample_task ''a@x.com'' ''new''])]"
    and "task = sample_task ''a@x.com'' ''new''"
    by (auto simp: json_response_def w)
  with p g show ?thesis by (simp add: json_response_def w)
qed

section \<open>Deleting a task that is not there\<close>

text \<open>
  Claim C8. Let the caller be authenticated, the tasks file hold an array without null
  entries, and no stored task both have an id matching the route and be owned by the
  caller. Then \<open>DELETE /tasks/:id\<close> answers 200 "Task deleted", the collection afterwards
  is the collection before (the same records in the same order, hence the same size), no
  other file changes, and when the tasks file already held that array no file changes at
  all.
\<close>

theorem delete_absent_task_is_noop:
  assumes auth: "authenticate jwt_verify (SECRET_KEY env) now authHeader = Inr user"
    and coll: "collection fs ''tasks.json'' = Some ts"
    and wf: "JNull \<notin> set ts"
    and none: "\<forall>t\<in>set ts. \<not> (id_matches conv taskId t \<and> owned_by (map_of user ''email'') t)"
  shows "\<exists>fs'. DELETE_task jwt_verify conv env now authHeader taskId fs =
           (fs', Inr (json_response 200 (JObj [(''message'', JStr ''Task deleted'')]))) \<and>
         collection fs' ''tasks.json'' = Some ts \<and>
         (\<forall>file. file \<noteq> ''tasks.json'' \<longrightarrow> fs' file = fs file) \<and>
         (fs ''tasks.json'' = Some (Doc (JArr ts)) \<longrightarrow> fs' = fs)"
proof -
  from none have "filter (\<lambda>t. \<not> mine conv user taskId t) ts = ts"
    by (simp add: mine_def)
  with delete_task_wf [OF coll wf, of conv taskId user]
  have d: "DELETE_task jwt_verify conv env now authHeader taskId fs =
      (writeData fs ''tasks.json'' (JArr ts),
       Inr (json_response 200 (JObj [(''message'', JStr ''Task deleted'')])))"
    by (simp add: DELETE_task_def with_auth_def auth)
  note st = collection_storable [OF coll]
  show ?thesis
    unfolding d by (simp add: st storable_JArr writeData_other writeData_same)
qed

text \<open>An instance: user A deletes an id that no task has.\<close>

theorem delete_absent_task_is_noop_witness:
  "DELETE_task sample_verify sample_conv None 9 (Some ''Bearer tokA'') ''7''
        [''tasks.json'' \<mapsto> Doc (JArr [sample_task ''a@x.com'' ''t''])] =
     ([''tasks.json'' \<mapsto> Doc (JArr [sample_task ''a@x.com'' ''t''])],
      Inr (json_response 200 (JObj [(''message'', JStr ''Task deleted'')])))"
proof -
  have wf: "JNull \<notin> set [sample_task ''a@x.com'' ''t'']"
    by (simp add: sample_task_def)
  have none: "\<forall>t\<in>set [sample_task ''a@x.com'' ''t''].
      \<not> (id_matches sample_conv ''7'' t \<and> owned_by (map_of [(''email'', JStr ''a@x.com'')] ''email'') t)"
    by (simp add: id_matches_def get_field_def sample_task_def sample_conv_def)
  show ?thesis
    using delete_absent_task_is_noop [OF sample_auth(1) [of 9] sample_collection wf none]
    by (auto simp: sample_task_storable)
qed

section \<open>Loading a collection\<close>

text \<open>
  Claim C9, as amended. \<open>readData\<close> on a file that does not exist writes the empty array
  to that file and returns the empty array. On a file that exists and is not empty it
  returns what \<open>JSON.parse\<close> makes of the whole text (the parsed value, or the parser's
  exception), and leaves the file alone. On a file that exists and is empty it does not
  parse: it returns the empty array, and the file stays empty.
\<close>

theorem readData_cases:
  "(fs file = None \<longrightarrow>
      readData fs file = (fs(file \<mapsto> JSON_stringify (JArr [])), Inr (JArr [])) \<and>
      JSON_parse (JSON_stringify (JArr [])) = Inr (JArr [])) \<and>
   (fs file = Some Blank \<longrightarrow> readData fs file = (fs, Inr (JArr []))) \<and>
   (\<forall>data. fs file = Some data \<and> data \<noteq> Blank \<longrightarrow> readData fs file = (fs, JSON_parse data))"
  by (simp add: readData_def JSON_stringify_def)

text \<open>
  The claim as it was stated, that \<open>readData\<close> on every existing file returns its parsed
  contents, fails on the empty file: \<open>JSON.parse\<close> rejects the empty text, and
  \<open>readData\<close> returns the empty array.
\<close>

theorem readData_cases_counterexample:
  "\<not> (\<forall>fs file data. fs file = Some data \<longrightarrow> snd (readData fs file) = JSON_parse data)"
proof
  assume "\<forall>fs file data. fs file = Some data \<longrightarrow> snd (readData fs file) = JSON_parse data"
  then have "snd (readData [''tasks.json'' \<mapsto> Blank] ''tasks.json'') = JSON_parse Blank"
    by simp
  then show False by (simp add: readData_def)
qed

text \<open>An instance: a missing, an empty, a well-formed and a corrupt users file.\<close>

theorem readData_cases_witness:
  "readData Map.empty ''users.json'' = ([''users.json'' \<mapsto> Doc (JArr [])], Inr (JArr [])) \<and>
   readData [''users.json'' \<mapsto> Blank] ''users.json'' = ([''users.json'' \<mapsto> Blank], Inr (JArr [])) \<and>
   readData [''users.json'' \<mapsto> Doc (JArr [JNum 1])] ''users.json'' =
     ([''users.json'' \<mapsto> Doc (JArr [JNum 1])], Inr (JArr [JNum 1])) \<and>
   readData [''users.json'' \<mapsto> Corrupt] ''users.json'' = ([''users.json'' \<mapsto> Corrupt], Inl SyntaxError)"
  using readData_cases [of Map.empty "''users.json''"]
    readData_cases [of "[''users.json'' \<mapsto> Blank]" "''users.json''"]
    readData_cases [of "[''users.json'' \<mapsto> Doc (JArr [JNum 1])]" "''users.json''"]
    readData_cases [of "[''users.json'' \<mapsto> Corrupt]" "''users.json''"]
  by (simp add: JSON_stringify_def)

section \<open>Validation of falsy fields\<close>

text \<open>
  Claim C10. A validator tests each required field with \<open>!field\<close>, so a field that is
  present with a falsy value (the empty string, the number 0, false, null) is treated exactly
  like a field that is absent: the validator answers as it does on the body without that
  field, which is status 400 with the message of that field among the errors. A registration
  whose \<open>age\<close> is 0, and any body one of whose required fields is the empty string, is
  therefore answered 400 by \<open>POST /register\<close>, and by \<open>POST /tasks\<close> and
  \<open>PUT /tasks/:id\<close> once the caller's token is accepted, and no file is touched.
\<close>

theorem falsy_required_field_rejected:
  assumes falsy: "\<not> truthy (map_of b k)"
  shows "((k, msg) \<in> set registration_required \<longrightarrow>
            validateRegistration b =
              Some (json_response 400 (JObj [(''errors'', JObj (registration_errors b))])) \<and>
            map_of (registration_errors b) k = Some (JStr msg) \<and>
            validateRegistration b = validateRegistration (without k b) \<and>
            POST_register bcrypt_hash jwt_sign env salt now b fs =
              (fs, Inr (json_response 400 (JObj [(''errors'', JObj (registration_errors b))])))) \<and>
         ((k, msg) \<in> set task_required \<longrightarrow>
            validateTask b = Some (json_response 400 (JObj [(''errors'', JObj (task_errors b))])) \<and>
            map_of (task_errors b) k = Some (JStr msg) \<and>
            validateTask b = validateTask (without k b) \<and>
            (authenticate jwt_verify (SECRET_KEY env) now authHeader = Inr user \<longrightarrow>
               POST_tasks jwt_verify toISOString env now authHeader b fs =
                 (fs, Inr (json_response 400 (JObj [(''errors'', JObj (task_errors b))]))) \<and>
               PUT_task jwt_verify conv env now authHeader taskId b fs =
                 (fs, Inr (json_response 400 (JObj [(''errors'', JObj (task_errors b))])))))"
proof (intro conjI impI)
  assume r: "(k, msg) \<in> set registration_required"
  show v: "validateRegistration b =
      Some (json_response 400 (JObj [(''errors'', JObj (registration_errors b))]))"
    by (rule validateRegistration_rejects [OF falsy r])
  show "map_of (registration_errors b) k = Some (JStr msg)"
    using required_errors_message [OF distinct_registration_required r falsy]
    by (simp add: registration_errors_table)
  show "validateRegistration b = validateRegistration (without k b)"
    by (simp add: validateRegistration_def registration_errors_without [OF falsy])
  show "POST_register bcrypt_hash jwt_sign env salt now b fs =
      (fs, Inr (json_response 400 (JObj [(''errors'', JObj (registration_errors b))])))"
    by (simp add: POST_register_def with_validation_def v)
next
  assume t: "(k, msg) \<in> set task_required"
  show v: "validateTask b = Some (json_response 400 (JObj [(''errors'', JObj (task_errors b))]))"
    by (rule validateTask_rejects [OF falsy t])
  show "map_of (task_errors b) k = Some (JStr msg)"
    using required_errors_message [OF distinct_task_required t falsy]
    by (simp add: task_errors_table)
  show "validateTask b = validateTask (without k b)"
    by (simp add: validateTask_def task_errors_without [OF falsy])
  assume a: "authenticate jwt_verify (SECRET_KEY env) now authHeader = Inr user"
  show "POST_tasks jwt_verify toISOString env now authHeader b fs =
      (fs, Inr (json_response 400 (JObj [(''errors'', JObj (task_errors b))])))"
    by (simp add: POST_tasks_def with_auth_def with_validation_def a v)
  show "PUT_task jwt_verify conv env now authHeader taskId b fs =
      (fs, Inr (json_response 400 (JObj [(''errors'', JObj (task_errors b))])))"
    by (simp add: PUT_task_def with_auth_def with_validation_def a v)
qed

text \<open>An instance: a registration with age 0, and an update with an empty title.\<close>

theorem falsy_required_field_rejected_witness:
  "\<not> truthy (map_of [(''name'', JStr ''A''), (''email'', JStr ''a@x.com''), (''password'', JStr ''p1''),
       (''phone'', JStr ''1''), (''age'', JNum 0), (''address'', JStr ''addr'')] ''age'') \<and>
   POST_register (\<lambda>p r s. Inr ''digest'') (\<lambda>p k x n. ''tok'') None ''salt'' 5
       [(''name'', JStr ''A''), (''email'', JStr ''a@x.com''), (''password'', JStr ''p1''),
        (''phone'', JStr ''1''), (''age'', JNum 0), (''address'', JStr ''addr'')] Map.empty =
     (Map.empty, Inr (json_response 400
        (JObj [(''errors'', JObj [(''age'', JStr ''Age is required'')])]))) \<and>
   \<not> truthy (map_of [(''title'', JStr []), (''content'', JStr ''c''), (''category'', JStr ''cat''),
       (''priority'', JStr ''hi''), (''tags'', JStr ''x''), (''status'', JStr ''pending''),
       (''date'', JStr ''2024-01-01'')] ''title'') \<and>
   PUT_task (\<lambda>t k n. if t = ''tok'' then Some [(''email'', JStr ''a@x.com'')] else None)
       (\<lambda>v s. False) None 5 (Some ''Bearer tok'') ''7''
       [(''title'', JStr []), (''content'', JStr ''c''), (''category'', JStr ''cat''),
        (''priority'', JStr ''hi''), (''tags'', JStr ''x''), (''status'', JStr ''pending''),
        (''date'', JStr ''2024-01-01'')] Map.empty =
     (Map.empty, Inr (json_response 400
        (JObj [(''errors'', JObj [(''title'', JStr ''Title is required'')])])))"
proof -
  let ?rb = "[(''name'', JStr ''A''), (''email'', JStr ''a@x.com''), (''password'', JStr ''p1''),
       (''phone'', JStr ''1''), (''age'', JNum 0), (''address'', JStr ''addr'')]"
  let ?tb = "[(''title'', JStr []), (''content'', JStr ''c''), (''category'', JStr ''cat''),
       (''priority'', JStr ''hi''), (''tags'', JStr ''x''), (''status'', JStr ''pending''),
       (''date'', JStr ''2024-01-01'')]"
  let ?verify = "\<lambda>t k n. if t = ''tok'' then Some [(''email'', JStr ''a@x.com'')] else None"
  have h1: "\<not> truthy (map_of ?rb ''age'')" by simp
  have m1: "(''age'', ''Age is required'') \<in> set registration_required"
    by (simp add: registration_required_def)
  have e1: "registration_errors ?rb = [(''age'', JStr ''Age is required'')]"
    by (simp add: registration_errors_def require_def)
  have h2: "\<not> truthy (map_of ?tb ''title'')" by simp
  have m2: "(''title'', ''Title is required'') \<in> set task_required"
    by (simp add: task_required_def)
  have e2: "task_errors ?tb = [(''title'', JStr ''Title is required'')]"
    by (simp add: task_errors_def require_def)
  have a: "authenticate ?verify (SECRET_KEY None) 5 (Some ''Bearer tok'') = Inr [(''email'', JStr ''a@x.com'')]"
    by (simp add: authenticate_def startsWith_def item_def)
  show ?thesis
    using falsy_required_field_rejected [OF h1, where msg = "''Age is required''"
        and bcrypt_hash = "\<lambda>p r s. Inr ''digest''" and jwt_sign = "\<lambda>p k x n. ''tok''" and env = None
        and salt = "''salt''" and now = 5 and fs = Map.empty]
      falsy_required_field_rejected [OF h2, where msg = "''Title is required''"
        and jwt_verify = ?verify and env = None and now = 5 and authHeader = "Some ''Bearer tok''"
        and user = "[(''email'', JStr ''a@x.com'')]" and conv = "\<lambda>v s. False" and taskId = "''7''"
        and fs = Map.empty]
      h1 h2 m1 m2 a
    by (simp only: e1 e2 simp_thms)
qed

end
